theory Spec2Isabelle
  imports Main "HOL-Library.Char_ord" "HOL-Library.List_Lexorder"
begin

section \<open>Errors and answers of the data store\<close>

text \<open>
  The Python exceptions the pipeline scripts can meet. A call of the Supabase client
  either answers or raises; the scripts catch the exception and go on, so a call's
  outcome is a value of \<open>py_error + 'a\<close>.
\<close>

datatype py_error = ZeroDivisionError | ValueError | TypeError | APIError string

text \<open>
  \<open>table(t).select('count', count='exact').execute().count\<close>: the number of rows of the
  table when the request goes through (\<open>up\<close>), an exception otherwise.
\<close>

definition count_exact :: "bool \<Rightarrow> 'r list \<Rightarrow> py_error + int" where
  "count_exact up tbl = (if up then Inr (int (length tbl)) else Inl (APIError ''request failed''))"

section \<open>Validation gate: \<open>StagingValidator.check_record_count\<close>\<close>

text \<open>
  \<open>validation_results\<close> of \<open>validate_staging.py\<close>. The messages are f-strings built from
  one number or one exception; a message is modelled by its kind and that value.
\<close>

datatype issue = Too_many_missing_records int | Record_count_check_failed py_error

datatype warning = Missing_records int | Extra_records int

record validation_results =
  overall_status :: string
  checks_passed :: nat
  checks_failed :: nat
  critical_issues :: "issue list"
  warnings :: "warning list"

definition initial_validation_results :: validation_results where
  "initial_validation_results =
     \<lparr>overall_status = ''PENDING'', checks_passed = 0, checks_failed = 0,
      critical_issues = [], warnings = []\<rparr>"

definition expected_count :: int where
  "expected_count = 489148"

text \<open>
  \<open>check_record_count\<close>, given the outcome of the count request on the staging table.
  The source compares \<open>missing > expected_count * 0.1\<close>, an integer against the float
  48914.8; for an integer \<open>missing\<close> that is \<open>10 * missing > expected_count\<close>.
\<close>

definition check_record_count ::
  "py_error + int \<Rightarrow> validation_results \<Rightarrow> bool \<times> validation_results" where
  "check_record_count result vr =
     (case result of
        Inl e \<Rightarrow>
          (False, vr\<lparr>critical_issues := critical_issues vr @ [Record_count_check_failed e],
                      checks_failed := checks_failed vr + 1\<rparr>)
      | Inr staging_count \<Rightarrow>
          if staging_count = expected_count then
            (True, vr\<lparr>checks_passed := checks_passed vr + 1\<rparr>)
          else if staging_count < expected_count then
            (let missing = expected_count - staging_count;
                 vr1 = vr\<lparr>warnings := warnings vr @ [Missing_records missing]\<rparr>
             in if 10 * missing > expected_count then
                  (False, vr1\<lparr>critical_issues :=
                                   critical_issues vr1 @ [Too_many_missing_records missing],
                                 checks_failed := checks_failed vr1 + 1\<rparr>)
                else (True, vr1\<lparr>checks_passed := checks_passed vr1 + 1\<rparr>))
          else
            (let extra = staging_count - expected_count
             in (True, vr\<lparr>warnings := warnings vr @ [Extra_records extra],
                            checks_passed := checks_passed vr + 1\<rparr>)))"

section \<open>Backup controller: \<open>CitesBackupCreator.validate_backup\<close>\<close>

text \<open>
  The backup file as \<open>pd.read_csv\<close> returns it: the header's columns and the data rows,
  each row a map from a column to its cell (no entry for an empty cell).
\<close>

record backup_csv =
  csv_columns :: "string list"
  csv_rows :: "(string \<rightharpoonup> string) list"

text \<open>\<open>get_current_record_count\<close> swallows the exception of the count request and returns 0.\<close>

definition get_current_record_count :: "py_error + int \<Rightarrow> int" where
  "get_current_record_count result = (case result of Inr n \<Rightarrow> n | Inl e \<Rightarrow> 0)"

definition required_columns :: "string list" where
  "required_columns = [''id'', ''species_id'', ''year'', ''appendix'', ''taxon'', ''quantity'']"

text \<open>
  \<open>validate_backup\<close>. The file is \<open>None\<close> when \<open>os.path.exists\<close> is false, \<open>Some (Inl e)\<close>
  when \<open>pd.read_csv\<close> raises, \<open>Some (Inr df)\<close> otherwise; \<open>result\<close> is the outcome of the
  count request on the live production table.
\<close>

definition validate_backup :: "(py_error + backup_csv) option \<Rightarrow> py_error + int \<Rightarrow> bool" where
  "validate_backup file result =
     (case file of
        None \<Rightarrow> False
      | Some (Inl e) \<Rightarrow> False
      | Some (Inr df) \<Rightarrow>
          (let backup_record_count = int (length (csv_rows df));
               current_count = get_current_record_count result
           in if backup_record_count \<noteq> current_count then False
              else
                (let missing_columns =
                       filter (\<lambda>col. col \<notin> set (csv_columns df)) required_columns
                 in if missing_columns \<noteq> [] then False else True)))"

section \<open>Staging loader: the extracted rows and the staging records\<close>

text \<open>
  A Python float is a number of \<open>'q\<close> or NaN. \<open>float_eq\<close> is \<open>==\<close> on floats: NaN is
  unequal to every float, itself included. \<open>py_eq\<close> is \<open>==\<close> on two values that are each
  \<open>None\<close> or a float.
\<close>

datatype 'q pyfloat = Float 'q | Float_nan

definition float_eq :: "'q pyfloat \<Rightarrow> 'q pyfloat \<Rightarrow> bool" where
  "float_eq a b =
     (case a of
        Float_nan \<Rightarrow> False
      | Float x \<Rightarrow> (case b of Float_nan \<Rightarrow> False | Float y \<Rightarrow> x = y))"

definition py_eq :: "'q pyfloat option \<Rightarrow> 'q pyfloat option \<Rightarrow> bool" where
  "py_eq a b =
     (case a of
        None \<Rightarrow> (case b of None \<Rightarrow> True | Some y \<Rightarrow> False)
      | Some x \<Rightarrow> (case b of None \<Rightarrow> False | Some y \<Rightarrow> float_eq x y))"

text \<open>
  A cell of the \<open>Quantity\<close> column: pandas' missing value (the float NaN of a numeric
  column), a float that is a number, or text (when the column did not parse as numbers).
\<close>

datatype 'q cell = NaN | Num 'q | Text string

text \<open>
  One row of the extracted CSV as a DataFrame row, with the \<open>species_id\<close> column that
  \<open>map_species_ids\<close> adds. A text cell is \<open>None\<close> where pandas holds NaN.
\<close>

record 'q df_row =
  Taxon :: "string option"
  Year :: "int option"
  Appendix :: "string option"
  Class :: "string option"
  Order :: "string option"
  Family :: "string option"
  Genus :: "string option"
  Importer :: "string option"
  Exporter :: "string option"
  Origin :: "string option"
  Quantity :: "'q cell"
  Term :: "string option"
  Unit :: "string option"
  Purpose :: "string option"
  Source :: "string option"
  df_species_id :: "string option"

text \<open>
  A record shaped for the staging table. The columns \<open>class\<close>, \<open>term\<close> and \<open>unit\<close> are
  named \<open>class_name\<close>, \<open>term_code\<close> and \<open>unit_code\<close> here.
\<close>

record 'q staging_record =
  species_id :: "string option"
  year :: int
  appendix :: "string option"
  taxon :: "string option"
  class_name :: "string option"
  order_name :: "string option"
  family :: "string option"
  genus :: "string option"
  importer :: "string option"
  exporter :: "string option"
  origin :: "string option"
  importer_reported_quantity :: "'q pyfloat option"
  exporter_reported_quantity :: "'q pyfloat option"
  term_code :: "string option"
  unit_code :: "string option"
  purpose :: "string option"
  source :: "string option"
  data_source :: string

definition lower_char :: "char \<Rightarrow> char" where
  "lower_char c =
     (let n = (of_char c :: nat) in if 65 \<le> n \<and> n \<le> 90 then char_of (n + 32) else c)"

text \<open>\<open>pd.isna(value)\<close> and \<open>str(value).lower() == 'nan'\<close> on a cell.\<close>

definition isna :: "'q cell \<Rightarrow> bool" where
  "isna value = (value = NaN)"

definition str_lower_is_nan :: "'q cell \<Rightarrow> bool" where
  "str_lower_is_nan value =
     (case value of NaN \<Rightarrow> True | Num q \<Rightarrow> False | Text s \<Rightarrow> map lower_char s = ''nan'')"

text \<open>
  \<open>_safe_numeric\<close>. \<open>float_of\<close> is Python's \<open>float\<close> on text: \<open>None\<close> where it raises
  \<open>ValueError\<close>, which the function catches, and a float, which can be NaN, otherwise.
  On a float \<open>float\<close> is the identity.
\<close>

definition safe_numeric ::
  "(string \<Rightarrow> 'q pyfloat option) \<Rightarrow> 'q cell \<Rightarrow> 'q pyfloat option" where
  "safe_numeric float_of value =
     (if isna value \<or> value = Text '''' \<or> str_lower_is_nan value then None
      else (case value of
              NaN \<Rightarrow> Some Float_nan
            | Num q \<Rightarrow> Some (Float q)
            | Text s \<Rightarrow> float_of s))"

text \<open>
  The body of the loop of \<open>prepare_staging_records\<close>: \<open>int(row['Year'])\<close> raises
  \<open>ValueError\<close> on a missing year; \<open>row[c] if pd.notna(row[c]) else None\<close> is the cell.
\<close>

definition prepare_staging_record ::
  "(string \<Rightarrow> 'q pyfloat option) \<Rightarrow> 'q df_row \<Rightarrow> py_error + 'q staging_record" where
  "prepare_staging_record float_of row =
     (case Year row of
        None \<Rightarrow> Inl ValueError
      | Some y \<Rightarrow>
          Inr \<lparr>species_id = df_species_id row,
               year = y,
               appendix = Appendix row,
               taxon = Taxon row,
               class_name = Class row,
               order_name = Order row,
               family = Family row,
               genus = Genus row,
               importer = Importer row,
               exporter = Exporter row,
               origin = Origin row,
               importer_reported_quantity = safe_numeric float_of (Quantity row),
               exporter_reported_quantity = safe_numeric float_of (Quantity row),
               term_code = Term row,
               unit_code = Unit row,
               purpose = Purpose row,
               source = Source row,
               data_source = ''CITES v2025.1''\<rparr>)"

fun prepare_staging_records ::
  "(string \<Rightarrow> 'q pyfloat option) \<Rightarrow> 'q df_row list \<Rightarrow> py_error + 'q staging_record list" where
  "prepare_staging_records float_of [] = Inr []"
| "prepare_staging_records float_of (row # df) =
     (case prepare_staging_record float_of row of
        Inl e \<Rightarrow> Inl e
      | Inr record \<Rightarrow>
          (case prepare_staging_records float_of df of
             Inl e \<Rightarrow> Inl e
           | Inr staging_records \<Rightarrow> Inr (record # staging_records)))"

text \<open>
  The resume path (\<open>resume_staging_load.load_remaining_records\<close>) converts the quantity with
  \<open>float(row['Quantity']) if pd.notna(row['Quantity']) else None\<close>, uncaught.
\<close>

definition resume_quantity ::
  "(string \<Rightarrow> 'q pyfloat option) \<Rightarrow> 'q cell \<Rightarrow> py_error + 'q pyfloat option" where
  "resume_quantity float_of value =
     (case value of
        NaN \<Rightarrow> Inr None
      | Num q \<Rightarrow> Inr (Some (Float q))
      | Text s \<Rightarrow> (case float_of s of None \<Rightarrow> Inl ValueError | Some q \<Rightarrow> Inr (Some q)))"

definition resume_record ::
  "(string \<Rightarrow> 'q pyfloat option) \<Rightarrow> 'q df_row \<Rightarrow> py_error + 'q staging_record" where
  "resume_record float_of row =
     (case Year row of
        None \<Rightarrow> Inl ValueError
      | Some y \<Rightarrow>
          (case resume_quantity float_of (Quantity row) of
             Inl e \<Rightarrow> Inl e
           | Inr importer_q \<Rightarrow>
               (case resume_quantity float_of (Quantity row) of
                  Inl e \<Rightarrow> Inl e
                | Inr exporter_q \<Rightarrow>
                    Inr \<lparr>species_id = df_species_id row,
                         year = y,
                         appendix = Appendix row,
                         taxon = Taxon row,
                         class_name = Class row,
                         order_name = Order row,
                         family = Family row,
                         genus = Genus row,
                         importer = Importer row,
                         exporter = Exporter row,
                         origin = Origin row,
                         importer_reported_quantity = importer_q,
                         exporter_reported_quantity = exporter_q,
                         term_code = Term row,
                         unit_code = Unit row,
                         purpose = Purpose row,
                         source = Source row,
                         data_source = ''CITES v2025.1''\<rparr>)))"

fun resume_records ::
  "(string \<Rightarrow> 'q pyfloat option) \<Rightarrow> 'q df_row list \<Rightarrow> py_error + 'q staging_record list" where
  "resume_records float_of [] = Inr []"
| "resume_records float_of (row # df) =
     (case resume_record float_of row of
        Inl e \<Rightarrow> Inl e
      | Inr record \<Rightarrow>
          (case resume_records float_of df of
             Inl e \<Rightarrow> Inl e
           | Inr records \<Rightarrow> Inr (record # records)))"

text \<open>
  A row and float readers used to run the definitions on concrete input. \<open>example_float\<close>
  is Python's \<open>float\<close> on the texts of the examples: \<open>float('4')\<close> is 4.0, \<open>float('nan ')\<close>
  and \<open>float('NAN')\<close> are NaN (surrounding whitespace is stripped and the case of \<open>nan\<close>
  is ignored), \<open>float('abc')\<close> raises \<open>ValueError\<close>; no other text is passed to it.
\<close>

definition example_row :: "int df_row" where
  "example_row =
     \<lparr>Taxon = Some ''Ursus maritimus'', Year = Some 2023, Appendix = Some ''II'',
      Class = Some ''Mammalia'', Order = Some ''Carnivora'', Family = Some ''Ursidae'',
      Genus = Some ''Ursus'', Importer = Some ''US'', Exporter = Some ''CA'', Origin = None,
      Quantity = Num 4, Term = Some ''skins'', Unit = None, Purpose = Some ''T'',
      Source = Some ''W'', df_species_id = None\<rparr>"

definition no_float :: "string \<Rightarrow> int pyfloat option" where
  "no_float s = None"

definition example_float :: "string \<Rightarrow> int pyfloat option" where
  "example_float s =
     (if s = ''4'' then Some (Float 4)
      else if s = ''nan '' \<or> s = ''NAN'' then Some Float_nan
      else None)"

section \<open>Splitting a list into batches\<close>

text \<open>
  The chunks of \<open>pd.read_csv(path, chunksize=n)\<close>, and the batches
  \<open>xs[i:i + n] for i in range(0, len(xs), n)\<close> when \<open>n\<close> is positive.
\<close>

function chunks_of :: "nat \<Rightarrow> 'a list \<Rightarrow> 'a list list" where
  "chunks_of n xs = (if n = 0 \<or> xs = [] then [] else take n xs # chunks_of n (drop n xs))"
  by pat_completeness auto
termination
  by (relation "measure (\<lambda>(n, xs). length xs)") auto

declare chunks_of.simps [simp del]

section \<open>Streaming extraction: \<open>ArcticTradeDataExtractor\<close>\<close>

text \<open>
  A source file of the trade database: its rows, and how far it reads. \<open>readable_chunks\<close>
  is \<open>None\<close> when the whole file reads, \<open>Some k\<close> when the reader raises after \<open>k\<close> chunks.
\<close>

record 'q source_csv =
  path :: string
  rows :: "'q df_row list"
  readable_chunks :: "nat option"

text \<open>
  \<open>file_stats\<close>; its key \<open>file\<close> is the field \<open>file_name\<close>, and the set
  \<open>species_found\<close> is a list without repetition.
\<close>

record file_stats =
  file_name :: string
  records_scanned :: nat
  arctic_records :: nat
  species_found :: "string list"
  error :: "string option"

definition chunk_size :: nat where
  "chunk_size = 50000"

text \<open>\<open>mask = chunk['Taxon'].isin(self.arctic_species.keys())\<close>, row by row.\<close>

definition is_arctic :: "string list \<Rightarrow> 'q df_row \<Rightarrow> bool" where
  "is_arctic arctic_species row =
     (case Taxon row of None \<Rightarrow> False | Some t \<Rightarrow> t \<in> set arctic_species)"

definition taxa :: "'q df_row list \<Rightarrow> string list" where
  "taxa chunk = concat (map (\<lambda>row. case Taxon row of None \<Rightarrow> [] | Some t \<Rightarrow> [t]) chunk)"

text \<open>The body of the loop over the chunks of one file.\<close>

definition scan_chunk :: "string list \<Rightarrow> file_stats \<Rightarrow> 'q df_row list \<Rightarrow> file_stats" where
  "scan_chunk arctic_species file_stats chunk =
     (let arctic_chunk = filter (is_arctic arctic_species) chunk;
          st = (if length arctic_chunk > 0
                then file_stats\<lparr>arctic_records := arctic_records file_stats + length arctic_chunk,
                                 species_found :=
                                   remdups (species_found file_stats @ taxa arctic_chunk)\<rparr>
                else file_stats)
      in st\<lparr>records_scanned := records_scanned st + length chunk\<rparr>)"

text \<open>
  \<open>process_single_file\<close>: the statistics of one file. When the reader raises, the
  statistics gathered so far are returned with the error noted.
\<close>

definition process_single_file :: "string list \<Rightarrow> 'q source_csv \<Rightarrow> file_stats" where
  "process_single_file arctic_species f =
     (let file_stats = \<lparr>file_name = path f, records_scanned = 0, arctic_records = 0,
                         species_found = [], error = None\<rparr>;
          chunks = chunks_of chunk_size (rows f)
      in case readable_chunks f of
           None \<Rightarrow> foldl (scan_chunk arctic_species) file_stats chunks
         | Some k \<Rightarrow>
             (foldl (scan_chunk arctic_species) file_stats (take k chunks))
               \<lparr>error := Some ''read error''\<rparr>)"

text \<open>\<open>self.stats\<close> of the extractor, and the aggregation loop of \<open>extract_all_arctic_data\<close>.\<close>

record extraction_stats =
  files_processed :: nat
  total_records_scanned :: nat
  arctic_records_found :: nat
  species_match_counts :: "string \<rightharpoonup> nat"

definition initial_extraction_stats :: extraction_stats where
  "initial_extraction_stats =
     \<lparr>files_processed = 0, total_records_scanned = 0, arctic_records_found = 0,
      species_match_counts = Map.empty\<rparr>"

text \<open>The body of the inner loop \<open>for species in result.get('species_found', [])\<close>.\<close>

definition track_species :: "file_stats \<Rightarrow> (string \<rightharpoonup> nat) \<Rightarrow> string \<Rightarrow> (string \<rightharpoonup> nat)" where
  "track_species result counts species =
     (case counts species of
        Some c \<Rightarrow> counts(species \<mapsto> c + arctic_records result)
      | None \<Rightarrow> counts(species \<mapsto> arctic_records result))"

definition aggregate_result :: "extraction_stats \<Rightarrow> file_stats \<Rightarrow> extraction_stats" where
  "aggregate_result stats result =
     stats\<lparr>files_processed := files_processed stats + 1,
           total_records_scanned := total_records_scanned stats + records_scanned result,
           arctic_records_found := arctic_records_found stats + arctic_records result,
           species_match_counts :=
             foldl (track_species result) (species_match_counts stats) (species_found result)\<rparr>"

definition extract_all_arctic_data :: "string list \<Rightarrow> 'q source_csv list \<Rightarrow> extraction_stats" where
  "extract_all_arctic_data arctic_species files =
     (let results = map (process_single_file arctic_species) files
      in foldl aggregate_result initial_extraction_stats results)"

text \<open>
  The matched rows of species \<open>s\<close> over all files: the rows whose Taxon is \<open>s\<close>, among the
  rows read, when \<open>s\<close> is a species of the list.
\<close>

definition rows_read :: "'q source_csv \<Rightarrow> 'q df_row list" where
  "rows_read f =
     (case readable_chunks f of
        None \<Rightarrow> rows f
      | Some k \<Rightarrow> concat (take k (chunks_of chunk_size (rows f))))"

definition matched_rows_of :: "string list \<Rightarrow> 'q source_csv list \<Rightarrow> string \<Rightarrow> nat" where
  "matched_rows_of arctic_species files s =
     length (filter (\<lambda>row. is_arctic arctic_species row \<and> Taxon row = Some s)
               (concat (map rows_read files)))"

definition two_species_file :: "int source_csv" where
  "two_species_file =
     \<lparr>path = ''trade_db_1.csv'',
      rows = [example_row, example_row\<lparr>Taxon := Some ''Monodon monoceros''\<rparr>],
      readable_chunks = None\<rparr>"

section \<open>The staging and production tables\<close>

text \<open>
  A stored row is a staging record with the columns the database fills in (\<open>id\<close>,
  \<open>created_at\<close>, \<open>updated_at\<close>). The database value holds the three tables the loader
  and the migrator touch and the list of requests issued so far.
\<close>

record row_meta =
  row_id :: string
  created_at :: string
  updated_at :: string

type_synonym 'q stored_row = "row_meta \<times> 'q staging_record"

datatype table_name = Species | Staging | Staging_summary | Production

datatype api_call = Select table_name | Insert table_name nat | Delete table_name

record 'q database =
  species_table :: "(string \<times> string) list"
  staging_table :: "'q stored_row list"
  production_table :: "'q stored_row list"
  api_calls :: "api_call list"

definition request :: "api_call \<Rightarrow> 'q database \<Rightarrow> 'q database" where
  "request c db = db\<lparr>api_calls := api_calls db @ [c]\<rparr>"


text \<open>
  Storing a batch: the database appends the rows, filling in the columns of its own;
  \<open>stamp i\<close> is what it gives the row at position \<open>i\<close> of the table.
\<close>

definition store_rows ::
  "(nat \<Rightarrow> row_meta) \<Rightarrow> 'q stored_row list \<Rightarrow> 'q staging_record list \<Rightarrow> 'q stored_row list" where
  "store_rows stamp tbl batch =
     tbl @ map (\<lambda>(i, r). (stamp i, r)) (enumerate (length tbl) batch)"

section \<open>Staging loader: \<open>CitesStageLoader\<close>\<close>

text \<open>
  A value of \<open>datetime.now()\<close>. Which moment it is plays no part; that a statistics dict
  holds a datetime and not \<open>None\<close> does, when the dict is written as JSON.
\<close>

datatype datetime = Datetime

record load_stats =
  total_records :: nat
  successful_loads :: nat
  failed_loads :: nat
  species_mapped :: nat
  start_time :: "datetime option"
  end_time :: "datetime option"

definition initial_load_stats :: load_stats where
  "initial_load_stats =
     \<lparr>total_records = 0, successful_loads = 0, failed_loads = 0, species_mapped = 0,
      start_time = None, end_time = None\<rparr>"

text \<open>
  \<open>load_species_mapping\<close>: the dict comprehension over the rows \<open>(id, scientific_name)\<close> of
  the species table; a later row with the same name wins. The exception is raised again.
\<close>

definition load_species_mapping ::
  "bool \<Rightarrow> 'q database \<Rightarrow> (py_error + (string \<rightharpoonup> string)) \<times> 'q database" where
  "load_species_mapping up db =
     (let db1 = request (Select Species) db
      in if up
         then (Inr (map_of (rev (map (\<lambda>(i, name). (name, i)) (species_table db1)))), db1)
         else (Inl (APIError ''request failed''), db1))"

text \<open>\<open>load_extracted_data\<close>: \<open>pd.read_csv\<close> answers with the rows or raises.\<close>

definition load_extracted_data ::
  "py_error + 'q df_row list \<Rightarrow> load_stats \<Rightarrow> (py_error + 'q df_row list) \<times> load_stats" where
  "load_extracted_data csv stats =
     (case csv of
        Inl e \<Rightarrow> (Inl e, stats)
      | Inr df \<Rightarrow> (Inr df, stats\<lparr>total_records := length df\<rparr>))"

text \<open>
  The loop of \<open>map_species_ids\<close> over \<open>df.iterrows()\<close>: the rows with the \<open>species_id\<close>
  column filled in, and \<open>mapped_count\<close>.
\<close>

fun map_rows :: "(string \<rightharpoonup> string) \<Rightarrow> 'q df_row list \<Rightarrow> 'q df_row list \<times> nat" where
  "map_rows species_mapping [] = ([], 0)"
| "map_rows species_mapping (row # df) =
     (let (df', mapped_count) = map_rows species_mapping df
      in case Taxon row of
           None \<Rightarrow> (row # df', mapped_count)
         | Some t \<Rightarrow>
             (case species_mapping t of
                None \<Rightarrow> (row # df', mapped_count)
              | Some sid \<Rightarrow> (row\<lparr>df_species_id := Some sid\<rparr> # df', mapped_count + 1)))"

text \<open>
  \<open>map_species_ids\<close>. The two log lines after the loop divide by \<open>len(df)\<close>; on an empty
  DataFrame they raise \<open>ZeroDivisionError\<close>, after \<open>species_mapped\<close> has been written.
\<close>

definition map_species_ids ::
  "(string \<rightharpoonup> string) \<Rightarrow> 'q df_row list \<Rightarrow> load_stats \<Rightarrow>
     (py_error + 'q df_row list) \<times> load_stats" where
  "map_species_ids species_mapping df stats =
     (let df0 = map (\<lambda>row. row\<lparr>df_species_id := None\<rparr>) df;
          (df1, mapped_count) = map_rows species_mapping df0;
          stats1 = stats\<lparr>species_mapped := mapped_count\<rparr>;
          unmapped_count = int (length df1) - int mapped_count
      in if length df1 = 0 then (Inl ZeroDivisionError, stats1)
         else if unmapped_count > 0
         then (Inr (filter (\<lambda>row. df_species_id row \<noteq> None) df1), stats1)
         else (Inr df1, stats1))"

definition zero_uuid :: string where
  "zero_uuid = ''00000000-0000-0000-0000-000000000000''"

text \<open>
  \<open>clear_staging_table\<close>: deletes the rows whose \<open>id\<close> is not the all-zero UUID; the
  exception of the request is raised again.
\<close>

definition clear_staging_table ::
  "bool \<Rightarrow> bool \<Rightarrow> 'q database \<Rightarrow> (py_error + unit) \<times> 'q database" where
  "clear_staging_table dry_run up db =
     (if dry_run then (Inr (), db)
      else
        (let db1 = request (Delete Staging) db
         in if up
            then (Inr (), db1\<lparr>staging_table :=
                                filter (\<lambda>r. \<not> row_id (fst r) \<noteq> zero_uuid) (staging_table db1)\<rparr>)
            else (Inl (APIError ''request failed''), db1)))"

text \<open>
  The batches \<open>staging_records[i:i + batch_size]\<close> for \<open>i\<close> in
  \<open>range(0, len(staging_records), batch_size)\<close>: \<open>range\<close> raises \<open>ValueError\<close> on a zero
  step and is empty on a negative one.
\<close>

definition batches :: "int \<Rightarrow> 'a list \<Rightarrow> py_error + 'a list list" where
  "batches batch_size xs =
     (if batch_size = 0 then Inl ValueError
      else if batch_size < 0 then Inr []
      else Inr (chunks_of (nat batch_size) xs))"

text \<open>
  One batch of \<open>load_to_staging\<close>. The staging table accepts a batch or rejects it as a
  whole (\<open>accepts\<close>); a rejected batch is counted as failed and the loop goes on.
\<close>

definition insert_staging_batch ::
  "('q staging_record list \<Rightarrow> bool) \<Rightarrow> (nat \<Rightarrow> row_meta) \<Rightarrow>
     nat \<times> nat \<times> 'q database \<Rightarrow> 'q staging_record list \<Rightarrow> nat \<times> nat \<times> 'q database" where
  "insert_staging_batch accepts stamp acc batch =
     (case acc of (successful_inserts, failed_inserts, db) \<Rightarrow>
        (let db1 = request (Insert Staging (length batch)) db
         in if accepts batch
            then (successful_inserts + length batch, failed_inserts,
                  db1\<lparr>staging_table := store_rows stamp (staging_table db1) batch\<rparr>)
            else (successful_inserts, failed_inserts + length batch, db1)))"

definition load_to_staging ::
  "bool \<Rightarrow> int \<Rightarrow> ('q staging_record list \<Rightarrow> bool) \<Rightarrow> (nat \<Rightarrow> row_meta) \<Rightarrow>
     'q staging_record list \<Rightarrow> load_stats \<Rightarrow> 'q database \<Rightarrow>
     (py_error + unit) \<times> load_stats \<times> 'q database" where
  "load_to_staging dry_run batch_size accepts stamp staging_records stats db =
     (if dry_run then (Inr (), stats, db)
      else
        (let stats1 = stats\<lparr>start_time := Some Datetime\<rparr>
         in case batches batch_size staging_records of
              Inl e \<Rightarrow> (Inl e, stats1, db)
            | Inr bs \<Rightarrow>
                (case foldl (insert_staging_batch accepts stamp) (0, 0, db) bs of
                   (successful_inserts, failed_inserts, db1) \<Rightarrow>
                     (Inr (), stats1\<lparr>successful_loads := successful_inserts,
                                     failed_loads := failed_inserts,
                                     end_time := Some Datetime\<rparr>, db1))))"

text \<open>
  The row of the view \<open>cites_staging_summary\<close> that \<open>validate_staging_load\<close> reads. The
  view is not part of the sources; \<open>view\<close> gives its row for a staging table (\<open>None\<close>
  when the view answers no row).
\<close>

record staging_summary =
  summary_total_records :: int
  latest_year :: "int option"

definition validate_staging_load ::
  "bool \<Rightarrow> ('q stored_row list \<Rightarrow> staging_summary option) \<Rightarrow> load_stats \<Rightarrow> 'q database \<Rightarrow>
     bool \<times> 'q database" where
  "validate_staging_load up view stats db =
     (let db1 = request (Select Staging_summary) db
      in if \<not> up then (False, db1)
         else
           (case view (staging_table db1) of
              None \<Rightarrow> (False, db1)
            | Some summary \<Rightarrow>
                if summary_total_records summary \<noteq> int (successful_loads stats) then (False, db1)
                else (case latest_year summary of None \<Rightarrow> (False, db1) | Some y \<Rightarrow> (True, db1))))"

text \<open>
  \<open>generate_load_report\<close> writes a local file with \<open>json.dump\<close>; the report holds
  \<open>load_stats\<close> as it is, and \<open>json.dump\<close> raises \<open>TypeError\<close> on a datetime.
\<close>

definition generate_load_report :: "load_stats \<Rightarrow> py_error + unit" where
  "generate_load_report stats =
     (if start_time stats \<noteq> None \<or> end_time stats \<noteq> None then Inl TypeError else Inr ())"

text \<open>
  \<open>main\<close> of \<open>load_to_staging.py\<close>: the exit code (0 or 1), the statistics and the
  database afterwards. Any exception ends the run with exit code 1, the one of the report
  included.
\<close>

definition staging_load_main ::
  "bool \<Rightarrow> int \<Rightarrow> bool \<Rightarrow> ('q staging_record list \<Rightarrow> bool) \<Rightarrow> (nat \<Rightarrow> row_meta) \<Rightarrow>
     ('q stored_row list \<Rightarrow> staging_summary option) \<Rightarrow> (string \<Rightarrow> 'q pyfloat option) \<Rightarrow>
     py_error + 'q df_row list \<Rightarrow> 'q database \<Rightarrow> nat \<times> load_stats \<times> 'q database" where
  "staging_load_main dry_run batch_size up accepts stamp view float_of csv db =
     (case load_species_mapping up db of
        (Inl e, db1) \<Rightarrow> (1, initial_load_stats, db1)
      | (Inr species_mapping, db1) \<Rightarrow>
     (case load_extracted_data csv initial_load_stats of
        (Inl e, stats1) \<Rightarrow> (1, stats1, db1)
      | (Inr df, stats1) \<Rightarrow>
     (case map_species_ids species_mapping df stats1 of
        (Inl e, stats2) \<Rightarrow> (1, stats2, db1)
      | (Inr df2, stats2) \<Rightarrow>
     (case prepare_staging_records float_of df2 of
        Inl e \<Rightarrow> (1, stats2, db1)
      | Inr staging_records \<Rightarrow>
     (case clear_staging_table dry_run up db1 of
        (Inl e, db2) \<Rightarrow> (1, stats2, db2)
      | (Inr u, db2) \<Rightarrow>
     (case load_to_staging dry_run batch_size accepts stamp staging_records stats2 db2 of
        (Inl e, stats3, db3) \<Rightarrow> (1, stats3, db3)
      | (Inr u', stats3, db3) \<Rightarrow>
          if \<not> dry_run
          then (case validate_staging_load up view stats3 db3 of
                  (False, db4) \<Rightarrow> (1, stats3, db4)
                | (True, db4) \<Rightarrow>
                    (case generate_load_report stats3 of
                       Inl e \<Rightarrow> (1, stats3, db4)
                     | Inr u'' \<Rightarrow> (0, stats3, db4)))
          else (case generate_load_report stats3 of
                  Inl e \<Rightarrow> (1, stats3, db3)
                | Inr u'' \<Rightarrow> (0, stats3, db3))))))))"

section \<open>Merge into production: \<open>CitesMigrator\<close>\<close>

text \<open>
  \<open>migration_stats\<close>; its keys \<open>start_time\<close> and \<open>end_time\<close> are named
  \<open>migration_start_time\<close> and \<open>migration_end_time\<close> here.
\<close>

record migration_stats =
  migration_start_time :: "datetime option"
  migration_end_time :: "datetime option"
  initial_production_count :: int
  initial_staging_count :: int
  records_migrated :: nat
  final_production_count :: int
  errors :: "string list"

definition initial_migration_stats :: migration_stats where
  "initial_migration_stats =
     \<lparr>migration_start_time = None, migration_end_time = None,
      initial_production_count = 0, initial_staging_count = 0, records_migrated = 0,
      final_production_count = 0, errors = []\<rparr>"

text \<open>
  The composite natural key of a record: \<open>(registry_id, year, appendix_code, taxon_name,
  importer, exporter, term, purpose_code, source_code)\<close>.
\<close>

definition natural_key ::
  "'q staging_record \<Rightarrow>
     string option \<times> int \<times> string option \<times> string option \<times> string option \<times> string option
       \<times> string option \<times> string option \<times> string option" where
  "natural_key r =
     (species_id r, year r, appendix r, taxon r, importer r, exporter r, term_code r,
      purpose r, source r)"

text \<open>
  Modelled from the spec: the production store's bulk insert, which is the database's and
  not the repository's. The request can fail for a reason of its own (a transient network
  failure, a row the store finds malformed), and then the table stays as it was:
  \<open>goes_through\<close> is False in that case. The store enforces uniqueness over the natural
  key: a batch in which a key repeats one of the table or one of the batch itself is
  rejected as a whole with PostgreSQL's message, and the table stays as it was; any other
  batch is appended.
\<close>

definition violates_unique :: "'q stored_row list \<Rightarrow> 'q staging_record list \<Rightarrow> bool" where
  "violates_unique tbl batch =
     (list_ex (\<lambda>r. natural_key r \<in> set (map (natural_key \<circ> snd) tbl)) batch
      \<or> \<not> distinct (map natural_key batch))"

definition insert_production ::
  "bool \<Rightarrow> (nat \<Rightarrow> row_meta) \<Rightarrow> 'q stored_row list \<Rightarrow> 'q staging_record list \<Rightarrow>
     py_error + 'q stored_row list" where
  "insert_production goes_through stamp tbl batch =
     (if \<not> goes_through then Inl (APIError ''request failed'')
      else if violates_unique tbl batch
      then Inl (APIError ''duplicate key value violates unique constraint'')
      else Inr (store_rows stamp tbl batch))"

text \<open>
  The paging loop of \<open>execute_migration\<close> over the staging table: the pages requested
  until one comes back empty, the empty one included.
\<close>

definition fetch_batch_size :: nat where
  "fetch_batch_size = 10000"

function fetch_pages :: "'a list \<Rightarrow> nat \<Rightarrow> 'a list list" where
  "fetch_pages tbl offset =
     (let data = take fetch_batch_size (drop offset tbl)
      in if data = [] then [data] else data # fetch_pages tbl (offset + fetch_batch_size))"
  by pat_completeness auto
termination
  by (relation "measure (\<lambda>(tbl, offset). length tbl - offset)")
    (auto simp: fetch_batch_size_def)

declare fetch_pages.simps [simp del]

text \<open>
  \<open>clean_record\<close>: the staging row without \<open>id\<close>, \<open>created_at\<close> and \<open>updated_at\<close>, with
  \<open>data_source\<close> set.
\<close>

definition clean_record :: "'q stored_row \<Rightarrow> 'q staging_record" where
  "clean_record record = (snd record)\<lparr>data_source := ''CITES v2025.1''\<rparr>"

definition migration_batch_size :: nat where
  "migration_batch_size = 1000"

text \<open>
  One batch of the insert loop: an insert that raises, for a duplicate key or for any
  other reason, adds the whole batch to \<open>errors\<close> and the loop goes on with the next
  batch. \<open>reachable n\<close> says whether the request that is number \<open>n\<close> of the database's
  log goes through.
\<close>

definition migrate_batch ::
  "(nat \<Rightarrow> bool) \<Rightarrow> (nat \<Rightarrow> row_meta) \<Rightarrow> nat \<times> nat \<times> 'q database \<Rightarrow> 'q stored_row list \<Rightarrow>
     nat \<times> nat \<times> 'q database" where
  "migrate_batch reachable stamp acc batch =
     (case acc of (inserted, errs, db) \<Rightarrow>
        (let clean_batch = map clean_record batch;
             db1 = request (Insert Production (length clean_batch)) db
         in case insert_production (reachable (length (api_calls db))) stamp
                   (production_table db1) clean_batch of
              Inr tbl \<Rightarrow> (inserted + length clean_batch, errs, db1\<lparr>production_table := tbl\<rparr>)
            | Inl e \<Rightarrow> (inserted, errs + length batch, db1)))"

text \<open>
  \<open>execute_migration\<close>. \<open>up\<close> says whether the requests that read the staging table go
  through; when one raises, the outer handler notes the error and returns False. The
  inserts into production have a handler of their own, in \<open>migrate_batch\<close>.
\<close>

definition execute_migration ::
  "bool \<Rightarrow> bool \<Rightarrow> (nat \<Rightarrow> bool) \<Rightarrow> (nat \<Rightarrow> row_meta) \<Rightarrow> migration_stats \<Rightarrow> 'q database \<Rightarrow>
     bool \<times> migration_stats \<times> 'q database" where
  "execute_migration dry_run up reachable stamp stats db =
     (if dry_run then (True, stats, db)
      else
        (let stats1 = stats\<lparr>migration_start_time := Some Datetime\<rparr>
         in if \<not> up
            then (False, stats1\<lparr>errors := errors stats1 @ [''Migration failed'']\<rparr>,
                  request (Select Staging) db)
            else
              (let pages = fetch_pages (staging_table db) 0;
                   db1 = db\<lparr>api_calls := api_calls db @ map (\<lambda>p. Select Staging) pages\<rparr>;
                   staging_records = concat pages
               in case foldl (migrate_batch reachable stamp) (0, 0, db1)
                         (chunks_of migration_batch_size staging_records) of
                    (inserted, errs, db2) \<Rightarrow>
                      (True, stats1\<lparr>records_migrated := inserted,
                                      migration_end_time := Some Datetime\<rparr>, db2))))"

text \<open>\<open>pre_migration_checks\<close> and \<open>post_migration_validation\<close>: counts, read only.\<close>

definition pre_migration_checks ::
  "bool \<Rightarrow> migration_stats \<Rightarrow> 'q database \<Rightarrow> bool \<times> migration_stats \<times> 'q database" where
  "pre_migration_checks up stats db =
     (let db1 = request (Select Staging) db
      in case count_exact up (staging_table db1) of
           Inl e \<Rightarrow> (False, stats\<lparr>errors := errors stats @ [''Pre-check failed'']\<rparr>, db1)
         | Inr staging_count \<Rightarrow>
             (let stats1 = stats\<lparr>initial_staging_count := staging_count\<rparr>;
                  db2 = request (Select Production) db1
              in case count_exact up (production_table db2) of
                   Inl e \<Rightarrow> (False, stats1\<lparr>errors := errors stats1 @ [''Pre-check failed'']\<rparr>, db2)
                 | Inr prod_count \<Rightarrow>
                     (let stats2 = stats1\<lparr>initial_production_count := prod_count\<rparr>;
                          expected_new = staging_count - prod_count
                      in if expected_new < 0 then (False, stats2, db2)
                         else (True, stats2, request (Select Staging_summary) db2))))"

definition post_migration_validation ::
  "bool \<Rightarrow> migration_stats \<Rightarrow> 'q database \<Rightarrow> bool \<times> migration_stats \<times> 'q database" where
  "post_migration_validation up stats db =
     (let db1 = request (Select Production) db
      in case count_exact up (production_table db1) of
           Inl e \<Rightarrow> (False, stats, db1)
         | Inr final_count \<Rightarrow>
             (let stats1 = stats\<lparr>final_production_count := final_count\<rparr>;
                  records_added = final_count - initial_production_count stats1;
                  db2 = request (Select Production) db1
              in (records_added > 0, stats1, db2)))"

text \<open>
  \<open>generate_migration_report\<close> writes a local file with \<open>json.dump\<close>; the report holds
  \<open>migration_stats\<close> as it is, and \<open>json.dump\<close> raises \<open>TypeError\<close> on a datetime. The
  key \<open>duration_seconds\<close> that it adds before is left out.
\<close>

definition generate_migration_report :: "migration_stats \<Rightarrow> py_error + unit" where
  "generate_migration_report stats =
     (if migration_start_time stats \<noteq> None \<or> migration_end_time stats \<noteq> None
      then Inl TypeError else Inr ())"

text \<open>
  \<open>main\<close> of \<open>execute_final_migration.py\<close>: the exit code and the database afterwards.
  \<open>confirmed\<close> is the operator's answer to the prompt, asked only outside a dry run;
  \<open>cleanup\<close> issues no request. Any exception ends the run with exit code 1, the one of
  the report included.
\<close>

definition migration_main ::
  "bool \<Rightarrow> bool \<Rightarrow> bool \<Rightarrow> (nat \<Rightarrow> bool) \<Rightarrow> (nat \<Rightarrow> row_meta) \<Rightarrow> 'q database \<Rightarrow>
     nat \<times> migration_stats \<times> 'q database" where
  "migration_main dry_run confirmed up reachable stamp db =
     (case pre_migration_checks up initial_migration_stats db of
        (False, stats1, db1) \<Rightarrow> (1, stats1, db1)
      | (True, stats1, db1) \<Rightarrow>
          if \<not> dry_run \<and> \<not> confirmed then (0, stats1, db1)
          else
            (case execute_migration dry_run up reachable stamp stats1 db1 of
               (False, stats2, db2) \<Rightarrow> (1, stats2, db2)
             | (True, stats2, db2) \<Rightarrow>
                 if \<not> dry_run
                 then (case post_migration_validation up stats2 db2 of
                         (False, stats3, db3) \<Rightarrow> (1, stats3, db3)
                       | (True, stats3, db3) \<Rightarrow>
                           (case generate_migration_report stats3 of
                              Inl e \<Rightarrow> (1, stats3, db3)
                            | Inr u \<Rightarrow> (0, stats3, db3)))
                 else (case generate_migration_report stats2 of
                         Inl e \<Rightarrow> (1, stats2, db2)
                       | Inr u \<Rightarrow> (0, stats2, db2))))"

text \<open>Concrete data for running the loader and the migrator.\<close>

definition example_stamp :: "nat \<Rightarrow> row_meta" where
  "example_stamp i = \<lparr>row_id = ''row'', created_at = ''now'', updated_at = ''now''\<rparr>"

definition example_record :: "int staging_record" where
  "example_record =
     \<lparr>species_id = Some ''polar-bear-id'', year = 2023, appendix = Some ''II'',
      taxon = Some ''Ursus maritimus'', class_name = Some ''Mammalia'',
      order_name = Some ''Carnivora'', family = Some ''Ursidae'', genus = Some ''Ursus'',
      importer = Some ''US'', exporter = Some ''CA'', origin = None,
      importer_reported_quantity = Some (Float 4),
      exporter_reported_quantity = Some (Float 4),
      term_code = Some ''skins'', unit_code = None, purpose = Some ''T'', source = Some ''W'',
      data_source = ''CITES v2025.1''\<rparr>"

definition example_database :: "int database" where
  "example_database =
     \<lparr>species_table = [(''polar-bear-id'', ''Ursus maritimus'')],
      staging_table = [(example_stamp 0, example_record)],
      production_table = [],
      api_calls = []\<rparr>"


text \<open>
  A database whose staging table holds a row already in production and a new row (year
  2024).
\<close>

definition duplicate_database :: "int database" where
  "duplicate_database =
     \<lparr>species_table = [(''polar-bear-id'', ''Ursus maritimus'')],
      staging_table = [(example_stamp 0, example_record),
                       (example_stamp 1, example_record\<lparr>year := 2024\<rparr>)],
      production_table = [(example_stamp 0, example_record)],
      api_calls = []\<rparr>"

text \<open>
  Names for stating what the loader does: the mapping \<open>load_species_mapping\<close> builds
  from the species table, whether a row's taxon has an entry in it, and the row with its
  \<open>species_id\<close> filled in.
\<close>

definition resolves :: "(string \<rightharpoonup> string) \<Rightarrow> 'q df_row \<Rightarrow> bool" where
  "resolves species_mapping row =
     (case Taxon row of None \<Rightarrow> False | Some t \<Rightarrow> species_mapping t \<noteq> None)"

definition with_species_id :: "(string \<rightharpoonup> string) \<Rightarrow> 'q df_row \<Rightarrow> 'q df_row" where
  "with_species_id species_mapping row =
     (case Taxon row of
        None \<Rightarrow> row
      | Some t \<Rightarrow>
          (case species_mapping t of None \<Rightarrow> row | Some sid \<Rightarrow> row\<lparr>df_species_id := Some sid\<rparr>))"

definition species_mapping_of :: "'q database \<Rightarrow> (string \<rightharpoonup> string)" where
  "species_mapping_of db = map_of (rev (map (\<lambda>(i, name). (name, i)) (species_table db)))"

text \<open>
  In the claim's words, not the loader's: the taxon name of an extracted row has an entry
  in the species mapping when the species table holds a row with that scientific name.
\<close>

definition has_species_entry :: "'q database \<Rightarrow> 'q df_row \<Rightarrow> bool" where
  "has_species_entry db row =
     (case Taxon row of None \<Rightarrow> False | Some t \<Rightarrow> t \<in> snd ` set (species_table db))"

section \<open>Normalization: \<open>TradeDataOptimizer.extract_lookup_tables\<close>\<close>

text \<open>
  A trade record as \<open>extract_species_trade_data.py\<close> writes it. The keys read from the
  CSV (\<open>id\<close>, \<open>appendix\<close>, \<open>class\<close>, \<open>order\<close>, \<open>family\<close>, \<open>genus\<close>, \<open>term\<close>, \<open>quantity_raw\<close>,
  \<open>unit\<close>, \<open>importer\<close>, \<open>exporter\<close>, \<open>origin\<close>, \<open>purpose\<close>, \<open>source\<close>, \<open>reporter_type\<close>,
  \<open>source_file\<close>) hold strings and are kept as a map from the key to its string, so a
  key may be absent; \<open>year\<close>, \<open>quantity_normalized\<close> and \<open>row_number\<close> hold a number or
  null.
\<close>

record 'q trade_record =
  str_fields :: "string \<rightharpoonup> string"
  year_field :: "int option"
  quantity_normalized_field :: "'q option"
  row_number_field :: "int option"

text \<open>\<open>record.get(field, '')\<close> on a string key.\<close>

definition get_str :: "'q trade_record \<Rightarrow> string \<Rightarrow> string" where
  "get_str r field = (case str_fields r field of None \<Rightarrow> '''' | Some v \<Rightarrow> v)"

text \<open>
  A key of a Python dict: an int and a str are never equal, and \<open>json.dump\<close> writes an
  int key as the string of its decimal digits.
\<close>

datatype pykey = KInt nat | KStr string

definition digit_char :: "nat \<Rightarrow> char" where
  "digit_char d = ''0123456789'' ! d"

function str_nat :: "nat \<Rightarrow> string" where
  "str_nat n = (if n < 10 then [digit_char n] else str_nat (n div 10) @ [digit_char (n mod 10)])"
  by pat_completeness auto
termination
  by (relation "measure (\<lambda>n. n)") auto

declare str_nat.simps [simp del]

definition json_key :: "pykey \<Rightarrow> pykey" where
  "json_key k = (case k of KInt n \<Rightarrow> KStr (str_nat n) | KStr s \<Rightarrow> KStr s)"

text \<open>
  The lookup tables; a dict is the list of its items in insertion order. \<open>taxonomic\<close>,
  \<open>locations\<close> and the inner dicts of \<open>categorical_reverse\<close> are keyed by the integer id.
\<close>

record lookup_tables =
  taxonomic :: "(pykey \<times> (string \<times> string) list) list"
  locations :: "(pykey \<times> string) list"
  categorical :: "(string \<times> (string \<times> nat) list) list"
  categorical_reverse :: "(string \<times> (pykey \<times> string) list) list"

text \<open>
  A normalized record: \<open>ids\<close> holds the keys \<open>taxonomic_id\<close>, \<open>term_id\<close>, \<open>unit_id\<close>,
  \<open>importer_id\<close>, \<open>exporter_id\<close>, \<open>origin_id\<close>, \<open>purpose_id\<close>, \<open>source_id\<close> and
  \<open>reporter_type_id\<close>; a key whose value was None is removed, here as everywhere in the
  record.
\<close>

record 'q normalized_record =
  nr_strs :: "string \<rightharpoonup> string"
  nr_ids :: "string \<rightharpoonup> nat"
  nr_year :: "int option"
  nr_quantity_normalized :: "'q option"
  nr_row_number :: "int option"

definition static_fields :: "string list" where
  "static_fields = [''appendix'', ''class'', ''order'', ''family'', ''genus'']"

definition location_fields :: "string list" where
  "location_fields = [''importer'', ''exporter'', ''origin'']"

definition categorical_fields :: "string list" where
  "categorical_fields = [''term'', ''purpose'', ''source'', ''reporter_type'', ''unit'']"

text \<open>\<open>tuple(record.get(field, '') for field in static_fields)\<close>.\<close>

definition static_combo :: "'q trade_record \<Rightarrow> string list" where
  "static_combo r = map (get_str r) static_fields"

text \<open>
  \<open>{x: i for i, x in enumerate(sorted(s))}\<close> and its reverse \<open>{i: x for x, i in
  d.items()}\<close>. Python's \<open>sorted\<close> on a set of strings, or of tuples of strings of one
  length, is the ascending list of the set in the lexicographic order.
\<close>

definition index_of_sorted :: "'a::linorder set \<Rightarrow> ('a \<times> nat) list" where
  "index_of_sorted s = map (\<lambda>(i, x). (x, i)) (enumerate 0 (sorted_list_of_set s))"

definition reverse_index :: "('a \<times> nat) list \<Rightarrow> (pykey \<times> 'a) list" where
  "reverse_index d = map (\<lambda>(x, i). (KInt i, x)) d"

definition static_combinations :: "'q trade_record list \<Rightarrow> string list set" where
  "static_combinations trade_records = set (map static_combo trade_records)"

definition static_lookup_of :: "'q trade_record list \<Rightarrow> (pykey \<times> (string \<times> string) list) list" where
  "static_lookup_of trade_records =
     map (\<lambda>(i, combo). (KInt i, zip static_fields combo))
       (enumerate 0 (sorted_list_of_set (static_combinations trade_records)))"

definition all_locations :: "'q trade_record list \<Rightarrow> string set" where
  "all_locations trade_records =
     set (filter (\<lambda>v. v \<noteq> '''')
            (concat (map (\<lambda>r. map (get_str r) location_fields) trade_records)))"

definition location_lookup_of :: "'q trade_record list \<Rightarrow> (string \<times> nat) list" where
  "location_lookup_of trade_records = index_of_sorted (all_locations trade_records)"

text \<open>\<open>values\<close> of one categorical field, the empty string discarded.\<close>

definition categorical_values :: "'q trade_record list \<Rightarrow> string \<Rightarrow> string set" where
  "categorical_values trade_records field =
     set (map (\<lambda>r. get_str r field) trade_records) - {''''}"

definition categorical_lookup_of ::
  "'q trade_record list \<Rightarrow> (string \<times> (string \<times> nat) list) list" where
  "categorical_lookup_of trade_records =
     map (\<lambda>field. (field, index_of_sorted (categorical_values trade_records field)))
       categorical_fields"

text \<open>
  The search for \<open>taxonomic_id\<close>: the first item of \<open>static_lookup\<close> whose data, read at
  the static fields, is the record's combination.
\<close>

definition find_taxonomic_id ::
  "(pykey \<times> (string \<times> string) list) list \<Rightarrow> string list \<Rightarrow> nat option" where
  "find_taxonomic_id static_lookup combo =
     (case find (\<lambda>(tid, data). map (map_of data) static_fields = map Some combo) static_lookup of
        None \<Rightarrow> None
      | Some (KInt tid, data) \<Rightarrow> Some tid
      | Some (KStr s, data) \<Rightarrow> None)"

text \<open>\<open>categorical_lookup.get(field, {}).get(record.get(field, ''), None)\<close>.\<close>

definition categorical_id ::
  "(string \<times> (string \<times> nat) list) list \<Rightarrow> string \<Rightarrow> 'q trade_record \<Rightarrow> nat option" where
  "categorical_id categorical_lookup field r =
     (case map_of categorical_lookup field of
        None \<Rightarrow> None
      | Some mapping \<Rightarrow> map_of mapping (get_str r field))"

text \<open>A dict built from items whose None values are removed.\<close>

definition without_none :: "(string \<times> 'v option) list \<Rightarrow> (string \<rightharpoonup> 'v)" where
  "without_none items k = (case map_of items k of None \<Rightarrow> None | Some v \<Rightarrow> v)"

definition normalize_record ::
  "(pykey \<times> (string \<times> string) list) list \<Rightarrow> (string \<times> nat) list \<Rightarrow>
     (string \<times> (string \<times> nat) list) list \<Rightarrow> 'q trade_record \<Rightarrow> 'q normalized_record" where
  "normalize_record static_lookup location_lookup categorical_lookup r =
     \<lparr>nr_strs = [''id'' \<mapsto> get_str r ''id'', ''quantity_raw'' \<mapsto> get_str r ''quantity_raw'',
                 ''source_file'' \<mapsto> get_str r ''source_file''],
      nr_ids = without_none
        [(''taxonomic_id'', find_taxonomic_id static_lookup (static_combo r)),
         (''term_id'', categorical_id categorical_lookup ''term'' r),
         (''unit_id'', categorical_id categorical_lookup ''unit'' r),
         (''importer_id'', map_of location_lookup (get_str r ''importer'')),
         (''exporter_id'', map_of location_lookup (get_str r ''exporter'')),
         (''origin_id'', map_of location_lookup (get_str r ''origin'')),
         (''purpose_id'', categorical_id categorical_lookup ''purpose'' r),
         (''source_id'', categorical_id categorical_lookup ''source'' r),
         (''reporter_type_id'', categorical_id categorical_lookup ''reporter_type'' r)],
      nr_year = year_field r,
      nr_quantity_normalized = quantity_normalized_field r,
      nr_row_number = row_number_field r\<rparr>"

definition extract_lookup_tables ::
  "'q trade_record list \<Rightarrow> lookup_tables \<times> 'q normalized_record list" where
  "extract_lookup_tables trade_records =
     (let static_lookup = static_lookup_of trade_records;
          location_lookup = location_lookup_of trade_records;
          location_reverse = reverse_index location_lookup;
          categorical_lookup = categorical_lookup_of trade_records;
          categorical_reverse =
            map (\<lambda>(field, mapping). (field, reverse_index mapping)) categorical_lookup
      in (\<lparr>taxonomic = static_lookup, locations = location_reverse,
            categorical = categorical_lookup, categorical_reverse = categorical_reverse\<rparr>,
          map (normalize_record static_lookup location_lookup categorical_lookup) trade_records))"

section \<open>The optimized file and its readers\<close>

text \<open>
  What \<open>optimize_species_file\<close> writes and a reader loads: the lookup tables and the
  normalized records (the species name, the summary and the metadata are not read by
  \<open>get_denormalized_records\<close>). The file is JSON: \<open>json.dump\<close> followed by \<open>json.load\<close>
  turns every integer key of a dict into a string and leaves the values as they are.
\<close>

record 'q optimized_data =
  data_lookup_tables :: lookup_tables
  data_trade_records :: "'q normalized_record list"

definition json_keys :: "(pykey \<times> 'v) list \<Rightarrow> (pykey \<times> 'v) list" where
  "json_keys d = map (\<lambda>(k, v). (json_key k, v)) d"

definition json_dump_load :: "'q optimized_data \<Rightarrow> 'q optimized_data" where
  "json_dump_load d =
     d\<lparr>data_lookup_tables :=
         (data_lookup_tables d)
           \<lparr>taxonomic := json_keys (taxonomic (data_lookup_tables d)),
            locations := json_keys (locations (data_lookup_tables d)),
            categorical_reverse :=
              map (\<lambda>(field, mapping). (field, json_keys mapping))
                (categorical_reverse (data_lookup_tables d))\<rparr>\<rparr>"

definition optimize_species_file :: "'q trade_record list \<Rightarrow> 'q optimized_data" where
  "optimize_species_file trade_records =
     (case extract_lookup_tables trade_records of
        (tables, normalized_records) \<Rightarrow>
          json_dump_load \<lparr>data_lookup_tables = tables, data_trade_records = normalized_records\<rparr>)"

text \<open>
  \<open>OptimizedTradeDataReader.get_denormalized_records\<close> of \<open>optimized_reader.py\<close>: the ids
  of a record are integers and are looked up as they are. \<open>update_all\<close> is
  \<open>full_record.update(d)\<close>.
\<close>

definition update_all :: "(string \<rightharpoonup> string) \<Rightarrow> (string \<times> string) list \<Rightarrow> (string \<rightharpoonup> string)" where
  "update_all m d = foldl (\<lambda>m (k, v). m(k \<mapsto> v)) m d"

definition with_taxonomic ::
  "(pykey \<times> (string \<times> string) list) list \<Rightarrow> pykey option \<Rightarrow> (string \<rightharpoonup> string) \<Rightarrow>
     (string \<rightharpoonup> string)" where
  "with_taxonomic taxonomic_lookup key full_record =
     (case key of
        None \<Rightarrow> full_record
      | Some k \<Rightarrow>
          (case map_of taxonomic_lookup k of
             None \<Rightarrow> full_record
           | Some data \<Rightarrow> update_all full_record data))"

definition looked_up :: "(pykey \<times> string) list \<Rightarrow> pykey option \<Rightarrow> string" where
  "looked_up lookup key =
     (case key of
        None \<Rightarrow> ''''
      | Some k \<Rightarrow> (case map_of lookup k of None \<Rightarrow> '''' | Some v \<Rightarrow> v))"

definition denormalize_record ::
  "(nat \<Rightarrow> pykey) \<Rightarrow> lookup_tables \<Rightarrow> 'q normalized_record \<Rightarrow> 'q trade_record" where
  "denormalize_record key_of tables record =
     (let full_record =
            [''id'' \<mapsto> (case nr_strs record ''id'' of None \<Rightarrow> '''' | Some v \<Rightarrow> v),
             ''quantity_raw'' \<mapsto> (case nr_strs record ''quantity_raw'' of None \<Rightarrow> '''' | Some v \<Rightarrow> v),
             ''source_file'' \<mapsto> (case nr_strs record ''source_file'' of None \<Rightarrow> '''' | Some v \<Rightarrow> v)];
          full_record1 =
            with_taxonomic (taxonomic tables)
              (map_option key_of (nr_ids record ''taxonomic_id'')) full_record;
          full_record2 =
            foldl (\<lambda>m field.
                     m(field \<mapsto> looked_up (locations tables)
                                  (map_option key_of (nr_ids record (field @ ''_id'')))))
              full_record1 [''importer'', ''exporter'', ''origin''];
          full_record3 =
            foldl (\<lambda>m field.
                     m(field \<mapsto>
                         (case map_of (categorical_reverse tables) field of
                            None \<Rightarrow> ''''
                          | Some lookup \<Rightarrow>
                              looked_up lookup
                                (map_option key_of (nr_ids record (field @ ''_id''))))))
              full_record2 [''term'', ''purpose'', ''source'', ''reporter_type'', ''unit'']
      in \<lparr>str_fields = full_record3, year_field = nr_year record,
          quantity_normalized_field = nr_quantity_normalized record,
          row_number_field = nr_row_number record\<rparr>)"

definition get_denormalized_records :: "'q optimized_data \<Rightarrow> 'q trade_record list" where
  "get_denormalized_records d =
     map (denormalize_record KInt (data_lookup_tables d)) (data_trade_records d)"

text \<open>
  The reader of the same name in \<open>load_optimized_trade_data.py\<close> looks every id up as
  \<open>str(id)\<close>, and loops over the fields of \<open>categorical_reverse\<close>.
\<close>

definition denormalize_record_str ::
  "lookup_tables \<Rightarrow> 'q normalized_record \<Rightarrow> 'q trade_record" where
  "denormalize_record_str tables record =
     (let key_of = (\<lambda>i. KStr (str_nat i));
          full_record =
            [''id'' \<mapsto> (case nr_strs record ''id'' of None \<Rightarrow> '''' | Some v \<Rightarrow> v),
             ''quantity_raw'' \<mapsto> (case nr_strs record ''quantity_raw'' of None \<Rightarrow> '''' | Some v \<Rightarrow> v),
             ''source_file'' \<mapsto> (case nr_strs record ''source_file'' of None \<Rightarrow> '''' | Some v \<Rightarrow> v)];
          full_record1 =
            with_taxonomic (taxonomic tables)
              (map_option key_of (nr_ids record ''taxonomic_id'')) full_record;
          full_record2 =
            foldl (\<lambda>m field.
                     m(field \<mapsto> looked_up (locations tables)
                                  (map_option key_of (nr_ids record (field @ ''_id'')))))
              full_record1 [''importer'', ''exporter'', ''origin''];
          full_record3 =
            foldl (\<lambda>m (category, lookup).
                     m(category \<mapsto>
                         looked_up lookup (map_option key_of (nr_ids record (category @ ''_id'')))))
              full_record2 (categorical_reverse tables)
      in \<lparr>str_fields = full_record3, year_field = nr_year record,
          quantity_normalized_field = nr_quantity_normalized record,
          row_number_field = nr_row_number record\<rparr>)"

definition get_denormalized_records_str :: "'q optimized_data \<Rightarrow> 'q trade_record list" where
  "get_denormalized_records_str d =
     map (denormalize_record_str (data_lookup_tables d)) (data_trade_records d)"

text \<open>The fields the lookup tables cover.\<close>

definition covered_fields :: "string list" where
  "covered_fields = static_fields @ location_fields @ categorical_fields"

text \<open>A trade record with importer US, for running the optimizer and the readers.\<close>

definition example_trade_record :: "int trade_record" where
  "example_trade_record =
     \<lparr>str_fields =
        [''id'' \<mapsto> ''1'', ''appendix'' \<mapsto> ''II'', ''class'' \<mapsto> ''Mammalia'',
         ''order'' \<mapsto> ''Carnivora'', ''family'' \<mapsto> ''Ursidae'', ''genus'' \<mapsto> ''Ursus'',
         ''term'' \<mapsto> ''skins'', ''quantity_raw'' \<mapsto> ''4'', ''unit'' \<mapsto> '''',
         ''importer'' \<mapsto> ''US'', ''exporter'' \<mapsto> ''CA'', ''origin'' \<mapsto> '''',
         ''purpose'' \<mapsto> ''T'', ''source'' \<mapsto> ''W'', ''reporter_type'' \<mapsto> ''E'',
         ''source_file'' \<mapsto> ''trade_db_1.csv''],
      year_field = Some 2023, quantity_normalized_field = Some 4, row_number_field = Some 7\<rparr>"

text \<open>A second record, whose appendix, importer and term sort before those of the first.\<close>

definition example_trade_record2 :: "int trade_record" where
  "example_trade_record2 =
     example_trade_record
       \<lparr>str_fields := (str_fields example_trade_record)
          (''appendix'' \<mapsto> ''I'', ''importer'' \<mapsto> ''AT'', ''term'' \<mapsto> ''bodies'')\<rparr>"

text \<open>
  In the claim's words, not the optimizer's: the distinct tuples of the five static fields,
  the distinct non-empty locations and the distinct non-empty values of a categorical
  field that are present in a list of records.
\<close>

definition present_static_tuples :: "'q trade_record list \<Rightarrow> string list set" where
  "present_static_tuples rs =
     (\<lambda>r. [get_str r ''appendix'', get_str r ''class'', get_str r ''order'',
           get_str r ''family'', get_str r ''genus'']) ` set rs"

definition present_locations :: "'q trade_record list \<Rightarrow> string set" where
  "present_locations rs =
     (\<Union>r \<in> set rs. {get_str r ''importer'', get_str r ''exporter'', get_str r ''origin''})
       - {''''}"

definition present_values :: "'q trade_record list \<Rightarrow> string \<Rightarrow> string set" where
  "present_values rs field = (\<lambda>r. get_str r field) ` set rs - {''''}"

section \<open>Theorems\<close>

subsection \<open>Record-count check\<close>

text \<open>
  Claim C7, as the code has it. When the count request answers \<open>n\<close>, the check fails exactly
  when the shortfall \<open>expected_count - n\<close> is more than a tenth of \<open>expected_count\<close>, and
  then it records one critical issue; a smaller shortfall passes with a warning and no
  critical issue; an excess passes with a warning and no critical issue. When the count
  request raises, the check fails as well and records a critical issue.
\<close>

theorem check_record_count_verdict:
  "(fst (check_record_count (Inr n) vr) = False \<longleftrightarrow> 10 * (expected_count - n) > expected_count)
   \<and> (10 * (expected_count - n) > expected_count \<longrightarrow>
        critical_issues (snd (check_record_count (Inr n) vr)) =
          critical_issues vr @ [Too_many_missing_records (expected_count - n)])
   \<and> (n < expected_count \<and> 10 * (expected_count - n) \<le> expected_count \<longrightarrow>
        check_record_count (Inr n) vr =
          (True, vr\<lparr>warnings := warnings vr @ [Missing_records (expected_count - n)],
                     checks_passed := checks_passed vr + 1\<rparr>))
   \<and> (expected_count < n \<longrightarrow>
        check_record_count (Inr n) vr =
          (True, vr\<lparr>warnings := warnings vr @ [Extra_records (n - expected_count)],
                     checks_passed := checks_passed vr + 1\<rparr>))
   \<and> fst (check_record_count (Inl e) vr) = False
   \<and> critical_issues (snd (check_record_count (Inl e) vr)) =
        critical_issues vr @ [Record_count_check_failed e]"
  by (simp add: check_record_count_def expected_count_def Let_def)

theorem check_record_count_verdict_witness:
  "fst (check_record_count (Inr 400000) initial_validation_results) = False
   \<and> critical_issues (snd (check_record_count (Inr 400000) initial_validation_results)) =
       [Too_many_missing_records 89148]
   \<and> check_record_count (Inr 489000) initial_validation_results =
       (True, initial_validation_results\<lparr>warnings := [Missing_records 148], checks_passed := 1\<rparr>)
   \<and> check_record_count (Inr 489150) initial_validation_results =
       (True, initial_validation_results\<lparr>warnings := [Extra_records 2], checks_passed := 1\<rparr>)"
  using check_record_count_verdict [of 400000 initial_validation_results]
    check_record_count_verdict [of 489000 initial_validation_results]
    check_record_count_verdict [of 489150 initial_validation_results]
  by (simp add: expected_count_def initial_validation_results_def)

text \<open>
  The staging table holds exactly the expected number of rows, so there is no shortfall;
  the count request raises, and the check fails and records a critical issue.
\<close>

theorem check_record_count_counterexample:
  "int (length (replicate 489148 example_row)) = expected_count
   \<and> fst (check_record_count (count_exact False (replicate 489148 example_row))
             initial_validation_results) = False
   \<and> critical_issues (snd (check_record_count (count_exact False (replicate 489148 example_row))
             initial_validation_results)) = [Record_count_check_failed (APIError ''request failed'')]"
  by (simp add: check_record_count_def count_exact_def expected_count_def
      initial_validation_results_def)

subsection \<open>Backup validation\<close>

text \<open>
  Claim C9, as the code has it. \<open>validate_backup\<close> returns True only if the backup file was
  read and its number of rows equals what \<open>get_current_record_count\<close> returned: the row
  count of the live production table when the count request went through, and 0 when the
  request raised.
\<close>

theorem validate_backup_compares_count:
  "validate_backup file (count_exact up live) \<Longrightarrow>
     \<exists>df. file = Some (Inr df)
        \<and> int (length (csv_rows df)) = get_current_record_count (count_exact up live)
        \<and> int (length (csv_rows df)) = (if up then int (length live) else 0)"
  by (auto simp: validate_backup_def get_current_record_count_def count_exact_def Let_def
      split: option.splits sum.splits if_splits)

theorem validate_backup_compares_count_witness:
  "validate_backup
     (Some (Inr \<lparr>csv_columns = required_columns, csv_rows = [Map.empty, Map.empty]\<rparr>))
     (count_exact True [example_row, example_row])
   \<and> (\<exists>df. Some (Inr \<lparr>csv_columns = required_columns, csv_rows = [Map.empty, Map.empty]\<rparr>)
              = Some (Inr df)
          \<and> int (length (csv_rows df)) = int (length [example_row, example_row]))"
proof -
  have v: "validate_backup
     (Some (Inr \<lparr>csv_columns = required_columns, csv_rows = [Map.empty, Map.empty]\<rparr>))
     (count_exact True [example_row, example_row])"
    by (simp add: validate_backup_def get_current_record_count_def count_exact_def)
  from validate_backup_compares_count [OF v] v show ?thesis by simp
qed

text \<open>
  The live production table holds one row and the backup file has a header and no data
  row. The count request raises, \<open>get_current_record_count\<close> returns 0, and the backup
  is declared valid although the two counts differ.
\<close>

theorem validate_backup_counterexample:
  "validate_backup (Some (Inr \<lparr>csv_columns = required_columns, csv_rows = []\<rparr>))
     (count_exact False [example_row])
   \<and> length (csv_rows \<lparr>csv_columns = required_columns, csv_rows = []\<rparr>) \<noteq> length [example_row]"
  by (simp add: validate_backup_def get_current_record_count_def count_exact_def)

subsection \<open>Reported quantities of a staging record\<close>

lemma py_eq_same: "py_eq x x \<longleftrightarrow> x \<noteq> Some Float_nan"
  by (simp add: py_eq_def float_eq_def split: option.splits pyfloat.splits)

lemma prepare_staging_record_quantities:
  "prepare_staging_record float_of row = Inr r \<Longrightarrow>
     importer_reported_quantity r = exporter_reported_quantity r
     \<and> importer_reported_quantity r = safe_numeric float_of (Quantity row)"
  by (auto simp: prepare_staging_record_def split: option.splits)

lemma resume_record_quantities:
  "resume_record float_of row = Inr r \<Longrightarrow>
     importer_reported_quantity r = exporter_reported_quantity r"
  by (auto simp: resume_record_def split: option.splits sum.splits)

lemma prepare_staging_records_quantities:
  "prepare_staging_records float_of df = Inr recs \<Longrightarrow>
     \<forall>r \<in> set recs. importer_reported_quantity r = exporter_reported_quantity r"
proof (induction df arbitrary: recs)
  case Nil
  then show ?case by simp
next
  case (Cons row df)
  then show ?case
    by (auto split: sum.splits dest: prepare_staging_record_quantities)
qed

lemma resume_records_quantities:
  "resume_records float_of df = Inr recs \<Longrightarrow>
     \<forall>r \<in> set recs. importer_reported_quantity r = exporter_reported_quantity r"
proof (induction df arbitrary: recs)
  case Nil
  then show ?case by simp
next
  case (Cons row df)
  then show ?case
    by (auto split: sum.splits dest: resume_record_quantities)
qed

text \<open>
  Claim C10, amended. Every staging record that record preparation produces, on the
  fresh-load path (\<open>prepare_staging_records\<close>) and on the resume path (\<open>resume_records\<close>),
  holds one and the same value in \<open>importer_reported_quantity\<close> and in
  \<open>exporter_reported_quantity\<close>, whatever \<open>float\<close> returns; the two compare equal under
  \<open>==\<close> exactly when that value is not NaN. Both are null when the Quantity cell is
  missing.
\<close>

theorem reported_quantities_same_value:
  "(prepare_staging_records float_of df = Inr recs \<longrightarrow>
      (\<forall>r \<in> set recs.
         importer_reported_quantity r = exporter_reported_quantity r
         \<and> (py_eq (importer_reported_quantity r) (exporter_reported_quantity r)
              \<longleftrightarrow> importer_reported_quantity r \<noteq> Some Float_nan)))
   \<and> (resume_records float_of df = Inr recs' \<longrightarrow>
      (\<forall>r \<in> set recs'.
         importer_reported_quantity r = exporter_reported_quantity r
         \<and> (py_eq (importer_reported_quantity r) (exporter_reported_quantity r)
              \<longleftrightarrow> importer_reported_quantity r \<noteq> Some Float_nan)))
   \<and> (Quantity row = NaN \<longrightarrow>
      (\<forall>r. prepare_staging_record float_of row = Inr r \<or> resume_record float_of row = Inr r \<longrightarrow>
         importer_reported_quantity r = None \<and> exporter_reported_quantity r = None))"
proof (intro conjI impI allI ballI)
  fix r
  assume "prepare_staging_records float_of df = Inr recs" and "r \<in> set recs"
  with prepare_staging_records_quantities [of float_of df recs]
  show e: "importer_reported_quantity r = exporter_reported_quantity r" by blast
  show "py_eq (importer_reported_quantity r) (exporter_reported_quantity r)
      \<longleftrightarrow> importer_reported_quantity r \<noteq> Some Float_nan"
    unfolding e [symmetric] by (rule py_eq_same)
next
  fix r
  assume "resume_records float_of df = Inr recs'" and "r \<in> set recs'"
  with resume_records_quantities [of float_of df recs']
  show e: "importer_reported_quantity r = exporter_reported_quantity r" by blast
  show "py_eq (importer_reported_quantity r) (exporter_reported_quantity r)
      \<longleftrightarrow> importer_reported_quantity r \<noteq> Some Float_nan"
    unfolding e [symmetric] by (rule py_eq_same)
next
  fix r
  assume q: "Quantity row = NaN"
    and r: "prepare_staging_record float_of row = Inr r \<or> resume_record float_of row = Inr r"
  from r show "importer_reported_quantity r = None"
    using q
    by (auto simp: prepare_staging_record_def resume_record_def resume_quantity_def
        safe_numeric_def isna_def split: option.splits)
  from r show "exporter_reported_quantity r = None"
    using q
    by (auto simp: prepare_staging_record_def resume_record_def resume_quantity_def
        safe_numeric_def isna_def split: option.splits)
qed

theorem reported_quantities_same_value_witness:
  "(\<exists>recs. prepare_staging_records example_float
             [example_row, example_row\<lparr>Quantity := NaN\<rparr>, example_row\<lparr>Quantity := Text ''4''\<rparr>]
             = Inr recs
      \<and> map importer_reported_quantity recs = [Some (Float 4), None, Some (Float 4)]
      \<and> map exporter_reported_quantity recs = [Some (Float 4), None, Some (Float 4)]
      \<and> list_all (\<lambda>r. py_eq (importer_reported_quantity r) (exporter_reported_quantity r)) recs)
   \<and> (\<exists>recs. resume_records example_float
             [example_row, example_row\<lparr>Quantity := NaN\<rparr>, example_row\<lparr>Quantity := Text ''4''\<rparr>]
             = Inr recs
      \<and> map importer_reported_quantity recs = [Some (Float 4), None, Some (Float 4)]
      \<and> map exporter_reported_quantity recs = [Some (Float 4), None, Some (Float 4)]
      \<and> list_all (\<lambda>r. py_eq (importer_reported_quantity r) (exporter_reported_quantity r)) recs)"
proof -
  let ?df = "[example_row, example_row\<lparr>Quantity := NaN\<rparr>, example_row\<lparr>Quantity := Text ''4''\<rparr>]"
  obtain recs where p: "prepare_staging_records example_float ?df = Inr recs"
    and pi: "map importer_reported_quantity recs = [Some (Float 4), None, Some (Float 4)]"
    by (simp add: prepare_staging_record_def example_row_def safe_numeric_def isna_def
        str_lower_is_nan_def example_float_def lower_char_def)
  obtain recs' where r: "resume_records example_float ?df = Inr recs'"
    and ri: "map importer_reported_quantity recs' = [Some (Float 4), None, Some (Float 4)]"
    by (simp add: resume_record_def resume_quantity_def example_row_def example_float_def)
  note t = reported_quantities_same_value [of example_float ?df recs recs' example_row]
  from t p r
  have e: "\<forall>r \<in> set recs. importer_reported_quantity r = exporter_reported_quantity r
         \<and> (py_eq (importer_reported_quantity r) (exporter_reported_quantity r)
              \<longleftrightarrow> importer_reported_quantity r \<noteq> Some Float_nan)"
    and e': "\<forall>r \<in> set recs'. importer_reported_quantity r = exporter_reported_quantity r
         \<and> (py_eq (importer_reported_quantity r) (exporter_reported_quantity r)
              \<longleftrightarrow> importer_reported_quantity r \<noteq> Some Float_nan)"
    by blast+
  from e have m: "map exporter_reported_quantity recs = map importer_reported_quantity recs"
    by simp
  from e' have m': "map exporter_reported_quantity recs' = map importer_reported_quantity recs'"
    by simp
  have "Some Float_nan \<notin> set (map importer_reported_quantity recs)" unfolding pi by simp
  with e have a: "list_all (\<lambda>r. py_eq (importer_reported_quantity r) (exporter_reported_quantity r)) recs"
    unfolding list_all_iff by auto
  have "Some Float_nan \<notin> set (map importer_reported_quantity recs')" unfolding ri by simp
  with e' have a': "list_all (\<lambda>r. py_eq (importer_reported_quantity r) (exporter_reported_quantity r)) recs'"
    unfolding list_all_iff by auto
  from p r pi ri m m' a a' show ?thesis by simp
qed

text \<open>
  Claim C10 as stated, at a concrete input: a Quantity cell that holds the text \<open>nan\<close>
  followed by a space passes the guard of \<open>_safe_numeric\<close>, which compares the lowered
  text with \<open>nan\<close> exactly, and \<open>float\<close> turns it into NaN; on the resume path, which has
  no such guard, the text \<open>NAN\<close> does the same. Both fields of the record then hold NaN,
  and \<open>==\<close> between them is false.
\<close>

theorem reported_quantities_counterexample:
  "(\<exists>r. prepare_staging_record example_float (example_row\<lparr>Quantity := Text ''nan ''\<rparr>) = Inr r
      \<and> importer_reported_quantity r = Some Float_nan
      \<and> exporter_reported_quantity r = Some Float_nan
      \<and> \<not> py_eq (importer_reported_quantity r) (exporter_reported_quantity r))
   \<and> (\<exists>r. resume_record example_float (example_row\<lparr>Quantity := Text ''NAN''\<rparr>) = Inr r
      \<and> importer_reported_quantity r = Some Float_nan
      \<and> exporter_reported_quantity r = Some Float_nan
      \<and> \<not> py_eq (importer_reported_quantity r) (exporter_reported_quantity r))"
  by (simp add: prepare_staging_record_def resume_record_def resume_quantity_def
      example_row_def safe_numeric_def isna_def str_lower_is_nan_def example_float_def
      lower_char_def py_eq_def float_eq_def)

subsection \<open>Per-species match counters of the extraction\<close>

lemma chunks_of_short:
  "xs \<noteq> [] \<Longrightarrow> length xs \<le> n \<Longrightarrow> chunks_of n xs = [xs]"
proof -
  assume ne: "xs \<noteq> []" and le: "length xs \<le> n"
  from ne le have "0 < n" by (cases xs) auto
  with ne le show ?thesis
    by (simp add: chunks_of.simps [of n xs] chunks_of.simps [of n "[]"])
qed

text \<open>
  Claim C6 at a concrete input: one source file with one row of \<open>Ursus maritimus\<close> and one
  row of \<open>Monodon monoceros\<close>, both species of the list. Each species has one matched row,
  and the extraction sets the counter of each to 2, the file's number of matched rows.
\<close>

theorem species_match_counts_overcount:
  "species_match_counts
     (extract_all_arctic_data [''Ursus maritimus'', ''Monodon monoceros''] [two_species_file])
     ''Ursus maritimus'' = Some 2
   \<and> matched_rows_of [''Ursus maritimus'', ''Monodon monoceros''] [two_species_file]
        ''Ursus maritimus'' = 1"
proof -
  have c: "chunks_of chunk_size [a, b] = [[a, b]]" for a b :: "int df_row"
    by (rule chunks_of_short) (simp_all add: chunk_size_def)
  show ?thesis
    by (simp add: extract_all_arctic_data_def process_single_file_def c scan_chunk_def
        aggregate_result_def track_species_def initial_extraction_stats_def
        matched_rows_of_def rows_read_def is_arctic_def taxa_def
        two_species_file_def example_row_def)
qed

subsection \<open>Batches, pages and the keys of the production table\<close>

lemma natural_key_clean_record [simp]:
  "natural_key (clean_record r) = natural_key (snd r)"
  by (simp add: clean_record_def natural_key_def)




lemma chunks_of_Nil [simp]: "chunks_of n [] = []"
  by (simp add: chunks_of.simps [of n "[]"])

lemma chunks_of_zero [simp]: "chunks_of 0 xs = []"
  by (simp add: chunks_of.simps [of 0 xs])

lemma chunks_of_step:
  "0 < n \<Longrightarrow> xs \<noteq> [] \<Longrightarrow> chunks_of n xs = take n xs # chunks_of n (drop n xs)"
  by (simp add: chunks_of.simps [of n xs])


lemma concat_chunks_of: "0 < n \<Longrightarrow> concat (chunks_of n xs) = xs"
proof (induction n xs rule: chunks_of.induct)
  case (1 n xs)
  show ?case
  proof (cases "xs = []")
    case True
    then show ?thesis by simp
  next
    case False
    with 1 have "concat (chunks_of n (drop n xs)) = drop n xs" by simp
    with False 1(2) show ?thesis by (simp add: chunks_of_step)
  qed
qed











lemma fetch_pages_past: "length tbl \<le> offset \<Longrightarrow> fetch_pages tbl offset = [[]]"
  by (simp add: fetch_pages.simps [of tbl offset])

lemma fetch_pages_short:
  "tbl \<noteq> [] \<Longrightarrow> length tbl \<le> fetch_batch_size \<Longrightarrow> fetch_pages tbl 0 = [tbl, []]"
  by (simp add: fetch_pages.simps [of tbl 0] fetch_pages_past)

subsection \<open>Idempotence of the merge\<close>




subsection \<open>A rejected batch\<close>

text \<open>
  Claim C3 at a concrete input: production holds one row; staging holds a row with the same
  natural key and a row with a new one, both in the same batch, and every request goes
  through. The store rejects the batch for the duplicate, the loop counts the whole batch
  as skipped and goes on, and the new row is not in production afterwards: the run issues
  one insert and no other.
\<close>

theorem rejected_batch_loses_new_rows:
  "execute_migration False True (\<lambda>n. True) example_stamp initial_migration_stats
       duplicate_database
     = (True,
        initial_migration_stats\<lparr>migration_start_time := Some Datetime,
                                 migration_end_time := Some Datetime\<rparr>,
        duplicate_database\<lparr>api_calls := [Select Staging, Select Staging, Insert Production 2]\<rparr>)
   \<and> natural_key (example_record\<lparr>year := 2024\<rparr>)
        \<notin> set (map (natural_key \<circ> snd) (production_table duplicate_database))
   \<and> natural_key (example_record\<lparr>year := 2024\<rparr>)
        \<notin> set (map (natural_key \<circ> snd) (production_table (snd (snd
             (execute_migration False True (\<lambda>n. True) example_stamp initial_migration_stats
                duplicate_database)))))"
proof -
  have c: "chunks_of migration_batch_size [a, b] = [[a, b]]" for a b :: "int stored_row"
    by (rule chunks_of_short) (simp_all add: migration_batch_size_def)
  have f: "fetch_pages [a, b] 0 = [[a, b], []]" for a b :: "int stored_row"
    by (rule fetch_pages_short) (simp_all add: fetch_batch_size_def)
  have e: "execute_migration False True (\<lambda>n. True) example_stamp initial_migration_stats
       duplicate_database
     = (True,
        initial_migration_stats\<lparr>migration_start_time := Some Datetime,
                                 migration_end_time := Some Datetime\<rparr>,
        duplicate_database\<lparr>api_calls := [Select Staging, Select Staging, Insert Production 2]\<rparr>)"
    by (simp add: execute_migration_def Let_def duplicate_database_def f c
        migrate_batch_def request_def insert_production_def violates_unique_def
        clean_record_def natural_key_def example_record_def initial_migration_stats_def)
  show ?thesis
    unfolding e by (simp add: duplicate_database_def natural_key_def example_record_def)
qed

subsection \<open>Dry runs\<close>







subsection \<open>Conservation of the staging load\<close>

lemma map_rows_closed:
  "map_rows m df = (map (with_species_id m) df, length (filter (resolves m) df))"
  by (induction df)
    (auto simp: with_species_id_def resolves_def split: option.splits)

lemma with_species_id_resolved:
  "df_species_id row = None \<Longrightarrow>
     df_species_id (with_species_id m row) \<noteq> None \<longleftrightarrow> resolves m row"
  by (auto simp: with_species_id_def resolves_def split: option.splits)

lemma resolves_reset [simp]: "resolves m (row\<lparr>df_species_id := x\<rparr>) = resolves m row"
  by (simp add: resolves_def)

lemma Year_with_species_id [simp]: "Year (with_species_id m row) = Year row"
  by (simp add: with_species_id_def split: option.splits)

lemma Taxon_with_species_id [simp]: "Taxon (with_species_id m row) = Taxon row"
  by (simp add: with_species_id_def split: option.splits)

lemma map_species_ids_nonempty:
  assumes "df \<noteq> []"
  shows "map_species_ids m df stats =
     (Inr (map (\<lambda>row. with_species_id m (row\<lparr>df_species_id := None\<rparr>)) (filter (resolves m) df)),
      stats\<lparr>species_mapped := length (filter (resolves m) df)\<rparr>)"
proof -
  let ?df0 = "map (\<lambda>row. row\<lparr>df_species_id := None\<rparr>) df"
  have f0: "filter (resolves m) ?df0 = map (\<lambda>row. row\<lparr>df_species_id := None\<rparr>) (filter (resolves m) df)"
    by (simp add: filter_map comp_def)
  have keep: "filter (\<lambda>row. df_species_id row \<noteq> None) (map (with_species_id m) ?df0)
      = map (\<lambda>row. with_species_id m (row\<lparr>df_species_id := None\<rparr>)) (filter (resolves m) df)"
    by (induction df) (auto simp: with_species_id_def resolves_def split: option.splits)
  have all: "map (with_species_id m) ?df0
      = map (\<lambda>row. with_species_id m (row\<lparr>df_species_id := None\<rparr>)) (filter (resolves m) df)"
    if "length (filter (resolves m) df) = length df"
  proof -
    from that have "filter (resolves m) df = df"
      by (metis filter_True length_filter_less not_less_iff_gr_or_eq)
    then show ?thesis by (simp add: comp_def)
  qed
  have le: "length (filter (resolves m) df) \<le> length df" by simp
  show ?thesis
  proof (cases "length (filter (resolves m) df) = length df")
    case True
    with assms all show ?thesis
      by (simp add: map_species_ids_def map_rows_closed f0 Let_def)
  next
    case False
    with le have "length (filter (resolves m) df) < length df" by linarith
    with assms keep show ?thesis
      by (simp add: map_species_ids_def map_rows_closed f0 Let_def)
  qed
qed

lemma map_species_ids_empty:
  "map_species_ids m [] stats = (Inl ZeroDivisionError, stats\<lparr>species_mapped := 0\<rparr>)"
  by (simp add: map_species_ids_def)

lemma prepare_staging_records_total:
  "\<forall>row \<in> set df. Year row \<noteq> None \<Longrightarrow>
     \<exists>recs. prepare_staging_records float_of df = Inr recs \<and> length recs = length df
        \<and> map taxon recs = map Taxon df"
proof (induction df)
  case Nil
  then show ?case by simp
next
  case (Cons row df)
  then obtain recs where r: "prepare_staging_records float_of df = Inr recs"
    "length recs = length df" "map taxon recs = map Taxon df" by auto
  from Cons.prems obtain y where "Year row = Some y" by auto
  with r show ?case by (simp add: prepare_staging_record_def)
qed

lemma foldl_insert_staging_batch:
  "\<forall>b \<in> set bs. accepts b \<Longrightarrow>
     foldl (insert_staging_batch accepts stamp) (s, f, db) bs = (s', f', db') \<Longrightarrow>
     s' = s + length (concat bs) \<and> f' = f
     \<and> length (staging_table db') = length (staging_table db) + length (concat bs)
     \<and> production_table db' = production_table db"
proof (induction bs arbitrary: s f db)
  case Nil
  then show ?case by simp
next
  case (Cons b bs)
  let ?db1 = "(request (Insert Staging (length b)) db)
       \<lparr>staging_table := store_rows stamp (staging_table db) b\<rparr>"
  from Cons.prems have step: "insert_staging_batch accepts stamp (s, f, db) b
      = (s + length b, f, ?db1)"
    by (simp add: insert_staging_batch_def request_def Let_def)
  with Cons.prems have "foldl (insert_staging_batch accepts stamp) (s + length b, f, ?db1) bs
      = (s', f', db')" by simp
  with Cons.IH [of "s + length b" f ?db1] Cons.prems(1)
  have "s' = s + length b + length (concat bs) \<and> f' = f
     \<and> length (staging_table db') = length (staging_table ?db1) + length (concat bs)
     \<and> production_table db' = production_table ?db1" by simp
  then show ?case by (simp add: store_rows_def request_def)
qed


lemma length_filter_split:
  "length (filter P xs) + length (filter (\<lambda>x. \<not> P x) xs) = length xs"
  by (induction xs) simp_all

lemma load_to_staging_all_accepted:
  assumes "0 < batch_size" "\<forall>b. accepts b"
    and "load_to_staging False batch_size accepts stamp recs stats db = (r, stats', db')"
  shows "r = Inr () \<and> successful_loads stats' = length recs \<and> failed_loads stats' = 0
     \<and> length (staging_table db') = length (staging_table db) + length recs
     \<and> production_table db' = production_table db
     \<and> total_records stats' = total_records stats \<and> species_mapped stats' = species_mapped stats
     \<and> start_time stats' = Some Datetime"
proof -
  let ?bs = "chunks_of (nat batch_size) recs"
  obtain s f d where fo: "foldl (insert_staging_batch accepts stamp) (0, 0, db) ?bs = (s, f, d)"
    by (cases "foldl (insert_staging_batch accepts stamp) (0, 0, db) ?bs") auto
  from assms(2) have "\<forall>b \<in> set ?bs. accepts b" by simp
  from foldl_insert_staging_batch [OF this fo] assms(1)
  have "s = length recs" "f = 0"
    "length (staging_table d) = length (staging_table db) + length recs"
    "production_table d = production_table db"
    by (simp_all add: concat_chunks_of)
  with assms(1,3) fo show ?thesis
    by (auto simp: load_to_staging_def batches_def Let_def)
qed

lemma resolves_has_species_entry:
  "resolves (species_mapping_of db) row \<longleftrightarrow> has_species_entry db row"
proof -
  have "fst ` set (rev (map (\<lambda>(i, name). (name, i)) (species_table db)))
      = snd ` set (species_table db)"
    by (force simp: image_iff)
  then have "species_mapping_of db t \<noteq> None \<longleftrightarrow> t \<in> snd ` set (species_table db)" for t
    unfolding species_mapping_of_def using map_of_eq_None_iff by metis
  then show ?thesis
    by (simp add: resolves_def has_species_entry_def split: option.splits)
qed

lemma staging_load_run:
  assumes ne: "df \<noteq> []"
    and years: "\<forall>row \<in> set df. Year row \<noteq> None"
    and bs: "0 < batch_size"
    and acc: "\<forall>b. accepts b"
    and ids: "\<forall>r \<in> set (staging_table db). row_id (fst r) \<noteq> zero_uuid"
    and run: "staging_load_main False batch_size True accepts stamp view float_of (Inr df) db
       = (exit_code, stats, db')"
  shows "total_records stats = length df
     \<and> species_mapped stats = length (filter (resolves (species_mapping_of db)) df)
     \<and> successful_loads stats = species_mapped stats
     \<and> failed_loads stats = 0
     \<and> length (staging_table db') = length (filter (resolves (species_mapping_of db)) df)
     \<and> map taxon (map snd (staging_table db'))
         = map Taxon (filter (resolves (species_mapping_of db)) df)
     \<and> exit_code = 1"
proof -
  let ?m = "species_mapping_of db"
  let ?db1 = "request (Select Species) db"
  let ?df2 = "map (\<lambda>row. with_species_id ?m (row\<lparr>df_species_id := None\<rparr>)) (filter (resolves ?m) df)"
  let ?stats2 = "initial_load_stats\<lparr>total_records := length df,
      species_mapped := length (filter (resolves ?m) df)\<rparr>"
  have m: "load_species_mapping True db = (Inr ?m, ?db1)"
    by (simp add: load_species_mapping_def species_mapping_of_def request_def Let_def)
  have x: "load_extracted_data (Inr df) initial_load_stats
      = (Inr df, initial_load_stats\<lparr>total_records := length df\<rparr>)"
    by (simp add: load_extracted_data_def)
  have ms: "map_species_ids ?m df (initial_load_stats\<lparr>total_records := length df\<rparr>)
      = (Inr ?df2, ?stats2)"
    by (simp add: map_species_ids_nonempty [OF ne])
  from years have "\<forall>row \<in> set ?df2. Year row \<noteq> None" by auto
  from prepare_staging_records_total [OF this, of float_of]
  obtain recs where p: "prepare_staging_records float_of ?df2 = Inr recs"
    and lr: "length recs = length ?df2" and tr: "map taxon recs = map Taxon ?df2"
    by blast
  from ids have "filter (\<lambda>r. \<not> row_id (fst r) \<noteq> zero_uuid) (staging_table db) = []"
    by (induction "staging_table db") (auto simp: filter_empty_conv)
  then have c: "clear_staging_table False True ?db1
      = (Inr (), (request (Delete Staging) ?db1)\<lparr>staging_table := []\<rparr>)"
    by (simp add: clear_staging_table_def request_def Let_def)
  let ?db2 = "(request (Delete Staging) ?db1)\<lparr>staging_table := []\<rparr>"
  obtain r stats3 db3 where l: "load_to_staging False batch_size accepts stamp recs ?stats2 ?db2
      = (r, stats3, db3)"
    by (cases "load_to_staging False batch_size accepts stamp recs ?stats2 ?db2") auto
  from load_to_staging_all_accepted [OF bs acc l]
  have r: "r = Inr ()" and s3: "successful_loads stats3 = length recs"
    "failed_loads stats3 = 0"
    "total_records stats3 = length df"
    "species_mapped stats3 = length (filter (resolves ?m) df)"
    "start_time stats3 = Some Datetime"
    and t3: "length (staging_table db3) = length recs"
    by (simp_all add: request_def)
  have rows3: "map snd (staging_table db3) = recs"
  proof -
    have "map snd (staging_table (snd (snd (foldl (insert_staging_batch accepts stamp) a bs))))
        = map snd (staging_table (snd (snd a))) @ concat bs" for a bs
    proof (induction bs arbitrary: a)
      case Nil
      then show ?case by simp
    next
      case (Cons b bs)
      have e: "map (snd \<circ> (\<lambda>(i, r). (stamp i, r))) (enumerate n b) = b" for n
        by (induction b arbitrary: n) simp_all
      from acc have "map snd (staging_table (snd (snd (insert_staging_batch accepts stamp a b))))
          = map snd (staging_table (snd (snd a))) @ b"
        by (cases a) (simp add: insert_staging_batch_def request_def Let_def store_rows_def e)
      with Cons.IH [of "insert_staging_batch accepts stamp a b"] show ?case by simp
    qed
    from this [of "(0, 0, ?db2)" "chunks_of (nat batch_size) recs"] l bs
    show ?thesis
      by (simp add: load_to_staging_def batches_def concat_chunks_of case_prod_beta Let_def)
  qed
  obtain ok db4 where v: "validate_staging_load True view stats3 db3 = (ok, db4)"
    by (cases "validate_staging_load True view stats3 db3") auto
  then have st4: "staging_table db4 = staging_table db3"
    by (auto simp: validate_staging_load_def request_def Let_def
        split: option.splits if_splits)
  have g: "generate_load_report stats3 = Inl TypeError"
    using s3(5) by (simp add: generate_load_report_def)
  have main: "staging_load_main False batch_size True accepts stamp view float_of (Inr df) db
      = (1, stats3, db4)"
    using m x ms p c l r v g
    by (cases ok) (simp_all add: staging_load_main_def)
  with run have "stats = stats3" "db' = db4" "exit_code = 1" by simp_all
  then show ?thesis
    using s3 t3 lr st4 rows3 tr by (simp add: comp_def)
qed

text \<open>
  Claim C5. The loader runs on a non-empty dataset whose rows all have a year, with a
  positive batch size and a staging table that holds no row with the all-zero id, which
  \<open>clear_staging_table\<close> would keep; the species table and the CSV are read. A row has an
  entry when the species table holds a row with its taxon name. Then the statistics count
  the extracted rows and the rows with an entry, so that total minus mapped is the number
  of rows without one, and, every insert batch being accepted, the staging table ends
  with exactly the rows that have an entry, in their order: its row count is the
  extracted count minus the unresolved count, and no batch is counted as failed.
\<close>

theorem staging_load_conservation:
  assumes "df \<noteq> []"
    and "\<forall>row \<in> set df. Year row \<noteq> None"
    and "0 < batch_size"
    and "\<forall>b. accepts b"
    and "\<forall>r \<in> set (staging_table db). row_id (fst r) \<noteq> zero_uuid"
    and "staging_load_main False batch_size True accepts stamp view float_of (Inr df) db
       = (exit_code, stats, db')"
  shows "total_records stats = length df
     \<and> species_mapped stats = length (filter (has_species_entry db) df)
     \<and> int (total_records stats) - int (species_mapped stats)
         = int (length (filter (\<lambda>row. \<not> has_species_entry db row) df))
     \<and> successful_loads stats = species_mapped stats
     \<and> failed_loads stats = 0
     \<and> int (length (staging_table db'))
         = int (length df)
           - int (length (filter (\<lambda>row. \<not> has_species_entry db row) df))
     \<and> map taxon (map snd (staging_table db'))
         = map Taxon (filter (has_species_entry db) df)"
proof -
  have f: "filter (resolves (species_mapping_of db)) df = filter (has_species_entry db) df"
    by (rule filter_cong) (simp_all add: resolves_has_species_entry)
  have "int (length df) - int (length (filter (has_species_entry db) df))
      = int (length (filter (\<lambda>row. \<not> has_species_entry db row) df))"
    using length_filter_split [of "has_species_entry db" df] by linarith
  with staging_load_run [OF assms] show ?thesis
    unfolding f by simp
qed

text \<open>
  A run on two extracted rows, one of a species of the species table and one of a taxon
  that is not there, into a staging table that holds a row of an earlier run.
\<close>

theorem staging_load_conservation_witness:
  "total_records (fst (snd (staging_load_main False 5000 True (\<lambda>b. True) example_stamp
       (\<lambda>t. None) no_float
       (Inr [example_row, example_row\<lparr>Taxon := Some ''Gavia immer''\<rparr>]) example_database))) = 2
   \<and> species_mapped (fst (snd (staging_load_main False 5000 True (\<lambda>b. True) example_stamp
       (\<lambda>t. None) no_float
       (Inr [example_row, example_row\<lparr>Taxon := Some ''Gavia immer''\<rparr>]) example_database))) = 1
   \<and> map taxon (map snd (staging_table (snd (snd (staging_load_main False 5000 True
       (\<lambda>b. True) example_stamp (\<lambda>t. None) no_float
       (Inr [example_row, example_row\<lparr>Taxon := Some ''Gavia immer''\<rparr>]) example_database)))))
     = [Some ''Ursus maritimus'']"
proof -
  let ?df = "[example_row, example_row\<lparr>Taxon := Some ''Gavia immer''\<rparr>]"
  obtain c st d where run: "staging_load_main False 5000 True (\<lambda>b. True) example_stamp
       (\<lambda>t. None) no_float (Inr ?df) example_database = (c, st, d)"
    by (cases "staging_load_main False 5000 True (\<lambda>b. True) example_stamp
       (\<lambda>t. None) no_float (Inr ?df) example_database") auto
  have h: "?df \<noteq> []" "\<forall>row \<in> set ?df. Year row \<noteq> None" "0 < (5000::int)"
    "\<forall>b::int staging_record list. (\<lambda>b. True) b"
    "\<forall>r \<in> set (staging_table example_database). row_id (fst r) \<noteq> zero_uuid"
    by (simp_all add: example_row_def example_database_def example_stamp_def zero_uuid_def)
  have e: "filter (has_species_entry example_database) ?df = [example_row]"
    by (simp add: has_species_entry_def example_database_def example_row_def)
  from staging_load_conservation [OF h run]
  have "total_records st = 2" "species_mapped st = 1"
    "map taxon (map snd (staging_table d)) = [Some ''Ursus maritimus'']"
    unfolding e by (simp_all add: example_row_def)
  then show ?thesis unfolding run by simp
qed

text \<open>
  An extracted CSV with a header and no row: \<open>map_species_ids\<close> raises
  \<open>ZeroDivisionError\<close> in its log line and the run ends with exit code 1 after the read
  of the species table, before the staging table is cleared and before any insert.
\<close>

lemma empty_dataset_aborts_load:
  "map_species_ids (species_mapping_of example_database) [] initial_load_stats
     = (Inl ZeroDivisionError, initial_load_stats)
   \<and> staging_load_main False 5000 True (\<lambda>b. True) example_stamp (\<lambda>t. None) no_float
       (Inr []) example_database
     = (1, initial_load_stats, example_database\<lparr>api_calls := [Select Species]\<rparr>)"
  by (simp add: staging_load_main_def load_species_mapping_def request_def
      load_extracted_data_def map_species_ids_def Let_def initial_load_stats_def
      example_database_def)

subsection \<open>Exit codes of a run that writes\<close>

text \<open>
  Outside a dry run \<open>load_to_staging\<close> and \<open>execute_migration\<close> store a datetime in the
  statistics before anything else, so the report at the end of \<open>main\<close> cannot be written:
  a run of the loader that is not a dry run, and a run of the migration that the
  operator confirmed, end with exit code 1 also when every step before the report went
  well.
\<close>

lemma load_to_staging_start_time:
  "load_to_staging False batch_size accepts stamp recs stats db = (r, stats', db') \<Longrightarrow>
     start_time stats' = Some Datetime"
  by (auto simp: load_to_staging_def Let_def case_prod_beta split: sum.splits)

lemma staging_load_main_exit_code:
  "fst (staging_load_main False batch_size up accepts stamp view float_of csv db) = 1"
proof -
  have g: "generate_load_report stats3 = Inl TypeError"
    if "load_to_staging False batch_size accepts stamp recs stats2 db2 = (r, stats3, db3)"
    for recs stats2 db2 r stats3 db3
    using load_to_staging_start_time [OF that] by (simp add: generate_load_report_def)
  show ?thesis
    unfolding staging_load_main_def
    by (auto split: prod.splits sum.splits bool.splits dest: g)
qed

lemma execute_migration_start_time:
  "execute_migration False up reachable stamp stats db = (ok, stats', db') \<Longrightarrow>
     migration_start_time stats' = Some Datetime"
  by (auto simp: execute_migration_def Let_def case_prod_beta split: if_splits)

lemma post_migration_validation_start_time:
  "migration_start_time (fst (snd (post_migration_validation up stats db)))
     = migration_start_time stats"
  by (simp add: post_migration_validation_def Let_def count_exact_def)

lemma migration_main_exit_code:
  "fst (migration_main False True up reachable stamp db) = 1"
proof -
  obtain ok stats1 db1 where p: "pre_migration_checks up initial_migration_stats db = (ok, stats1, db1)"
    by (cases "pre_migration_checks up initial_migration_stats db") auto
  obtain ok2 stats2 db2 where e: "execute_migration False up reachable stamp stats1 db1 = (ok2, stats2, db2)"
    by (cases "execute_migration False up reachable stamp stats1 db1") auto
  obtain ok3 stats3 db3 where v: "post_migration_validation up stats2 db2 = (ok3, stats3, db3)"
    by (cases "post_migration_validation up stats2 db2") auto
  from execute_migration_start_time [OF e] post_migration_validation_start_time [of up stats2 db2] v
  have "generate_migration_report stats3 = Inl TypeError"
    by (simp add: generate_migration_report_def)
  with p e v show ?thesis
    by (cases ok; cases ok2; cases ok3) (simp_all add: migration_main_def)
qed

subsection \<open>The lookup tables\<close>

lemma swap_enumerate:
  "map (\<lambda>(i, x). (x, i)) (enumerate n xs) = zip xs [n..<n + length xs]"
  by (simp add: enumerate_eq_zip zip_commute [of xs])

lemma index_of_sorted_zip:
  "finite s \<Longrightarrow> index_of_sorted s = zip (sorted_list_of_set s) [0..<card s]"
  by (simp add: index_of_sorted_def swap_enumerate)

lemma reverse_index_zip:
  "length xs = length ns \<Longrightarrow> reverse_index (zip xs ns) = zip (map KInt ns) xs"
  by (induction xs ns rule: list_induct2) (simp_all add: reverse_index_def)

lemma index_of_sorted_keys:
  "finite s \<Longrightarrow> map fst (index_of_sorted s) = sorted_list_of_set s"
  "finite s \<Longrightarrow> map snd (index_of_sorted s) = [0..<card s]"
  by (simp_all add: index_of_sorted_zip)

lemma reverse_index_sorted:
  "finite s \<Longrightarrow> map fst (reverse_index (index_of_sorted s)) = map KInt [0..<card s]"
  "finite s \<Longrightarrow> map snd (reverse_index (index_of_sorted s)) = sorted_list_of_set s"
  by (simp_all add: index_of_sorted_zip reverse_index_zip)

lemma finite_sets [simp]:
  "finite (static_combinations rs)" "finite (all_locations rs)"
  "finite (categorical_values rs field)"
  by (simp_all add: static_combinations_def all_locations_def categorical_values_def)

lemma length_static_combo: "c \<in> static_combinations rs \<Longrightarrow> length c = length static_fields"
  by (auto simp: static_combinations_def static_combo_def)

lemma static_lookup_of_zip:
  "static_lookup_of rs =
     zip (map KInt [0..<card (static_combinations rs)])
       (map (zip static_fields) (sorted_list_of_set (static_combinations rs)))"
proof -
  have "map (\<lambda>(i, combo). (KInt i, zip static_fields combo)) (enumerate n xs)
      = zip (map KInt [n..<n + length xs]) (map (zip static_fields) xs)" for n and xs :: "string list list"
    by (simp add: enumerate_eq_zip zip_map_map)
  then show ?thesis by (simp add: static_lookup_of_def)
qed

lemma taxonomic_values:
  "map (map snd \<circ> snd) (static_lookup_of rs) = sorted_list_of_set (static_combinations rs)"
proof -
  have "map (map snd \<circ> zip static_fields) xs = xs"
    if "\<forall>c \<in> set xs. length c = length static_fields" for xs :: "string list list"
    using that by (induction xs) simp_all
  moreover have "\<forall>c \<in> set (sorted_list_of_set (static_combinations rs)).
      length c = length static_fields"
    by (simp add: length_static_combo)
  ultimately have v: "map (map snd \<circ> zip static_fields)
      (sorted_list_of_set (static_combinations rs)) = sorted_list_of_set (static_combinations rs)"
    by blast
  have "map (map snd \<circ> snd) (zip ks vs) = map (map snd) vs"
    if "length ks = length vs" for ks :: "pykey list" and vs :: "(string \<times> string) list list"
    using that by (induction ks vs rule: list_induct2) simp_all
  from this [of "map KInt [0..<card (static_combinations rs)]"
      "map (zip static_fields) (sorted_list_of_set (static_combinations rs))"] v
  show ?thesis by (simp add: static_lookup_of_zip)
qed

lemma tables_of_sets:
  assumes "set rs = set rs'"
  shows "static_combinations rs = static_combinations rs'"
    "all_locations rs = all_locations rs'"
    "categorical_values rs field = categorical_values rs' field"
  using assms
  by (simp_all add: static_combinations_def all_locations_def categorical_values_def)

lemma str_nat_small: "str_nat 0 = ''0''" "str_nat (Suc 0) = ''1''"
  by (simp_all add: str_nat.simps [of 0] str_nat.simps [of "Suc 0"] digit_char_def)

lemma tables_example:
  "fst (extract_lookup_tables [example_trade_record]) =
     \<lparr>taxonomic = [(KInt 0, [(''appendix'', ''II''), (''class'', ''Mammalia''),
         (''order'', ''Carnivora''), (''family'', ''Ursidae''), (''genus'', ''Ursus'')])],
      locations = [(KInt 0, ''CA''), (KInt 1, ''US'')],
      categorical = [(''term'', [(''skins'', 0)]), (''purpose'', [(''T'', 0)]),
         (''source'', [(''W'', 0)]), (''reporter_type'', [(''E'', 0)]), (''unit'', [])],
      categorical_reverse = [(''term'', [(KInt 0, ''skins'')]), (''purpose'', [(KInt 0, ''T'')]),
         (''source'', [(KInt 0, ''W'')]), (''reporter_type'', [(KInt 0, ''E'')]), (''unit'', [])]\<rparr>"
  by (simp add: extract_lookup_tables_def Let_def static_lookup_of_def static_combo_def
      static_fields_def location_lookup_of_def all_locations_def location_fields_def
      categorical_lookup_of_def categorical_fields_def index_of_sorted_def reverse_index_def
      static_combinations_def categorical_values_def get_str_def example_trade_record_def)

lemma optimize_example:
  "data_lookup_tables (optimize_species_file [example_trade_record]) =
     \<lparr>taxonomic = [(KStr ''0'', [(''appendix'', ''II''), (''class'', ''Mammalia''),
         (''order'', ''Carnivora''), (''family'', ''Ursidae''), (''genus'', ''Ursus'')])],
      locations = [(KStr ''0'', ''CA''), (KStr ''1'', ''US'')],
      categorical = [(''term'', [(''skins'', 0)]), (''purpose'', [(''T'', 0)]),
         (''source'', [(''W'', 0)]), (''reporter_type'', [(''E'', 0)]), (''unit'', [])],
      categorical_reverse = [(''term'', [(KStr ''0'', ''skins'')]), (''purpose'', [(KStr ''0'', ''T'')]),
         (''source'', [(KStr ''0'', ''W'')]), (''reporter_type'', [(KStr ''0'', ''E'')]), (''unit'', [])]\<rparr>"
  using tables_example
  by (simp add: optimize_species_file_def json_dump_load_def json_keys_def json_key_def
      str_nat_small case_prod_beta)

lemma ids_example:
  "map (nr_ids (hd (data_trade_records (optimize_species_file [example_trade_record]))))
     [''taxonomic_id'', ''term_id'', ''unit_id'', ''importer_id'', ''exporter_id'', ''origin_id'',
      ''purpose_id'', ''source_id'', ''reporter_type_id'']
   = [Some 0, Some 0, None, Some 1, Some 0, None, Some 0, Some 0, Some 0]"
  by (simp add: optimize_species_file_def json_dump_load_def case_prod_beta
      extract_lookup_tables_def Let_def normalize_record_def without_none_def
      find_taxonomic_id_def categorical_id_def
      static_lookup_of_def static_combo_def
      static_fields_def location_lookup_of_def all_locations_def location_fields_def
      categorical_lookup_of_def categorical_fields_def index_of_sorted_def reverse_index_def
      static_combinations_def categorical_values_def get_str_def example_trade_record_def)

lemma present_sets:
  "static_combinations rs = present_static_tuples rs"
  "all_locations rs = present_locations rs"
  "categorical_values rs field = present_values rs field"
  by (auto simp: static_combinations_def static_combo_def static_fields_def
      present_static_tuples_def all_locations_def location_fields_def present_locations_def
      categorical_values_def present_values_def)

lemma present_sets_of_set:
  assumes "set rs = set rs'"
  shows "present_static_tuples rs = present_static_tuples rs'"
    "present_locations rs = present_locations rs'"
    "present_values rs field = present_values rs' field"
  using assms
  by (simp_all add: present_static_tuples_def present_locations_def present_values_def)

lemma lookup_tables_closed_form:
  "fst (extract_lookup_tables rs) =
     \<lparr>taxonomic =
        zip (map KInt [0..<card (present_static_tuples rs)])
          (map (zip [''appendix'', ''class'', ''order'', ''family'', ''genus''])
             (sorted_list_of_set (present_static_tuples rs))),
      locations =
        zip (map KInt [0..<card (present_locations rs)])
          (sorted_list_of_set (present_locations rs)),
      categorical =
        map (\<lambda>field. (field, zip (sorted_list_of_set (present_values rs field))
                                 [0..<card (present_values rs field)]))
          [''term'', ''purpose'', ''source'', ''reporter_type'', ''unit''],
      categorical_reverse =
        map (\<lambda>field. (field, zip (map KInt [0..<card (present_values rs field)])
                                 (sorted_list_of_set (present_values rs field))))
          [''term'', ''purpose'', ''source'', ''reporter_type'', ''unit'']\<rparr>"
proof -
  have t: "static_lookup_of rs =
      zip (map KInt [0..<card (present_static_tuples rs)])
        (map (zip [''appendix'', ''class'', ''order'', ''family'', ''genus''])
           (sorted_list_of_set (present_static_tuples rs)))"
    unfolding static_lookup_of_zip present_sets by (simp add: static_fields_def)
  have fl: "finite (present_locations rs)" and fv: "finite (present_values rs field)" for field
    using finite_sets [of rs] unfolding present_sets by simp_all
  have l: "reverse_index (location_lookup_of rs) =
      zip (map KInt [0..<card (present_locations rs)]) (sorted_list_of_set (present_locations rs))"
    unfolding location_lookup_of_def present_sets
    by (simp add: index_of_sorted_zip [OF fl] reverse_index_zip)
  have c: "categorical_lookup_of rs =
      map (\<lambda>field. (field, zip (sorted_list_of_set (present_values rs field))
                               [0..<card (present_values rs field)]))
        [''term'', ''purpose'', ''source'', ''reporter_type'', ''unit'']"
    unfolding categorical_lookup_of_def present_sets
    by (simp add: index_of_sorted_zip [OF fv] categorical_fields_def)
  have r: "reverse_index (zip (sorted_list_of_set (present_values rs field))
        [0..<card (present_values rs field)])
      = zip (map KInt [0..<card (present_values rs field)])
          (sorted_list_of_set (present_values rs field))" for field
    using fv [of field] by (simp add: reverse_index_zip)
  show ?thesis
    unfolding extract_lookup_tables_def Let_def fst_conv t l c
    by (simp add: r)
qed

text \<open>
  Claim C4. The taxonomic table of \<open>extract_lookup_tables\<close> assigns the ids 0..n-1 to the
  n distinct tuples of static fields present in the records, in ascending order; the
  locations table the ids 0..n-1 to the n distinct non-empty locations present, in
  ascending order; each categorical table and its reverse the ids 0..n-1 to the n
  distinct non-empty values of its field, in ascending order (\<open>sorted_list_of_set\<close> is the
  strictly ascending list of a finite set). The tables are therefore a function of the set
  of input records: two inputs with the same records, in any order and with any
  repetition, give equal tables, and so do two runs on equal lists.
\<close>

theorem lookup_tables_dense_sorted_deterministic:
  "taxonomic (fst (extract_lookup_tables rs))
     = zip (map KInt [0..<card (present_static_tuples rs)])
         (map (zip [''appendix'', ''class'', ''order'', ''family'', ''genus''])
            (sorted_list_of_set (present_static_tuples rs)))
   \<and> locations (fst (extract_lookup_tables rs))
     = zip (map KInt [0..<card (present_locations rs)])
         (sorted_list_of_set (present_locations rs))
   \<and> categorical (fst (extract_lookup_tables rs))
     = map (\<lambda>field. (field, zip (sorted_list_of_set (present_values rs field))
                               [0..<card (present_values rs field)]))
         [''term'', ''purpose'', ''source'', ''reporter_type'', ''unit'']
   \<and> categorical_reverse (fst (extract_lookup_tables rs))
     = map (\<lambda>field. (field, zip (map KInt [0..<card (present_values rs field)])
                               (sorted_list_of_set (present_values rs field))))
         [''term'', ''purpose'', ''source'', ''reporter_type'', ''unit'']
   \<and> (set rs = set rs' \<longrightarrow> fst (extract_lookup_tables rs) = fst (extract_lookup_tables rs'))"
proof (intro conjI impI)
  show "taxonomic (fst (extract_lookup_tables rs))
     = zip (map KInt [0..<card (present_static_tuples rs)])
         (map (zip [''appendix'', ''class'', ''order'', ''family'', ''genus''])
            (sorted_list_of_set (present_static_tuples rs)))"
    unfolding lookup_tables_closed_form by simp
  show "locations (fst (extract_lookup_tables rs))
     = zip (map KInt [0..<card (present_locations rs)])
         (sorted_list_of_set (present_locations rs))"
    unfolding lookup_tables_closed_form by simp
  show "categorical (fst (extract_lookup_tables rs))
     = map (\<lambda>field. (field, zip (sorted_list_of_set (present_values rs field))
                               [0..<card (present_values rs field)]))
         [''term'', ''purpose'', ''source'', ''reporter_type'', ''unit'']"
    unfolding lookup_tables_closed_form by simp
  show "categorical_reverse (fst (extract_lookup_tables rs))
     = map (\<lambda>field. (field, zip (map KInt [0..<card (present_values rs field)])
                               (sorted_list_of_set (present_values rs field))))
         [''term'', ''purpose'', ''source'', ''reporter_type'', ''unit'']"
    unfolding lookup_tables_closed_form by simp
next
  assume "set rs = set rs'"
  note e = present_sets_of_set [OF this]
  show "fst (extract_lookup_tables rs) = fst (extract_lookup_tables rs')"
    unfolding lookup_tables_closed_form e ..
qed

text \<open>
  Two records given in descending order of their appendix, importer and term, and the
  same two given the other way round with one repeated: the ids follow the ascending
  order of the values, not the order of the input.
\<close>

theorem lookup_tables_dense_sorted_deterministic_witness:
  "fst (extract_lookup_tables [example_trade_record2, example_trade_record,
          example_trade_record2])
     = fst (extract_lookup_tables [example_trade_record, example_trade_record2])
   \<and> fst (extract_lookup_tables [example_trade_record, example_trade_record2]) =
     \<lparr>taxonomic =
        [(KInt 0, [(''appendix'', ''I''), (''class'', ''Mammalia''),
           (''order'', ''Carnivora''), (''family'', ''Ursidae''), (''genus'', ''Ursus'')]),
         (KInt 1, [(''appendix'', ''II''), (''class'', ''Mammalia''),
           (''order'', ''Carnivora''), (''family'', ''Ursidae''), (''genus'', ''Ursus'')])],
      locations = [(KInt 0, ''AT''), (KInt 1, ''CA''), (KInt 2, ''US'')],
      categorical = [(''term'', [(''bodies'', 0), (''skins'', 1)]), (''purpose'', [(''T'', 0)]),
         (''source'', [(''W'', 0)]), (''reporter_type'', [(''E'', 0)]), (''unit'', [])],
      categorical_reverse = [(''term'', [(KInt 0, ''bodies''), (KInt 1, ''skins'')]),
         (''purpose'', [(KInt 0, ''T'')]), (''source'', [(KInt 0, ''W'')]),
         (''reporter_type'', [(KInt 0, ''E'')]), (''unit'', [])]\<rparr>"
proof -
  have "set [example_trade_record2, example_trade_record, example_trade_record2]
      = set [example_trade_record, example_trade_record2]"
    by auto
  with lookup_tables_dense_sorted_deterministic
    [of "[example_trade_record2, example_trade_record, example_trade_record2]"
       "[example_trade_record, example_trade_record2]"]
  have "fst (extract_lookup_tables [example_trade_record2, example_trade_record,
          example_trade_record2])
     = fst (extract_lookup_tables [example_trade_record, example_trade_record2])"
    by blast
  moreover have "fst (extract_lookup_tables [example_trade_record, example_trade_record2]) =
     \<lparr>taxonomic =
        [(KInt 0, [(''appendix'', ''I''), (''class'', ''Mammalia''),
           (''order'', ''Carnivora''), (''family'', ''Ursidae''), (''genus'', ''Ursus'')]),
         (KInt 1, [(''appendix'', ''II''), (''class'', ''Mammalia''),
           (''order'', ''Carnivora''), (''family'', ''Ursidae''), (''genus'', ''Ursus'')])],
      locations = [(KInt 0, ''AT''), (KInt 1, ''CA''), (KInt 2, ''US'')],
      categorical = [(''term'', [(''bodies'', 0), (''skins'', 1)]), (''purpose'', [(''T'', 0)]),
         (''source'', [(''W'', 0)]), (''reporter_type'', [(''E'', 0)]), (''unit'', [])],
      categorical_reverse = [(''term'', [(KInt 0, ''bodies''), (KInt 1, ''skins'')]),
         (''purpose'', [(KInt 0, ''T'')]), (''source'', [(KInt 0, ''W'')]),
         (''reporter_type'', [(KInt 0, ''E'')]), (''unit'', [])]\<rparr>"
    by (simp add: extract_lookup_tables_def Let_def static_lookup_of_def static_combo_def
      static_fields_def location_lookup_of_def all_locations_def location_fields_def
      categorical_lookup_of_def categorical_fields_def index_of_sorted_def reverse_index_def
      static_combinations_def categorical_values_def get_str_def example_trade_record_def
      example_trade_record2_def insert_Diff_if)
  ultimately show ?thesis by simp
qed

subsection \<open>Round trip through the optimized file\<close>

text \<open>
  Claim C1 at a concrete input: one trade record with importer US and exporter CA. The
  optimized file is JSON, so the ids that key \<open>taxonomic\<close>, \<open>locations\<close> and
  \<open>categorical_reverse\<close> are strings when the reader loads them, while the ids of a
  record are integers. \<open>get_denormalized_records\<close> of \<open>optimized_reader.py\<close> looks the
  integers up as they are, finds none, and returns the empty string for every covered
  field. The reader of the same name in \<open>load_optimized_trade_data.py\<close>, which looks up
  \<open>str(id)\<close>, returns the original values.
\<close>

theorem denormalized_fields_are_lost:
  "map (get_str example_trade_record) covered_fields =
     [''II'', ''Mammalia'', ''Carnivora'', ''Ursidae'', ''Ursus'', ''US'', ''CA'', '''',
      ''skins'', ''T'', ''W'', ''E'', '''']
   \<and> map (get_str (hd (get_denormalized_records (optimize_species_file [example_trade_record]))))
       covered_fields =
     ['''', '''', '''', '''', '''', '''', '''', '''', '''', '''', '''', '''', '''']
   \<and> map (get_str (hd (get_denormalized_records_str
        (optimize_species_file [example_trade_record])))) covered_fields =
     [''II'', ''Mammalia'', ''Carnivora'', ''Ursidae'', ''Ursus'', ''US'', ''CA'', '''',
      ''skins'', ''T'', ''W'', ''E'', '''']"
proof -
  have l: "length (data_trade_records (optimize_species_file [example_trade_record])) = 1"
    by (simp add: optimize_species_file_def json_dump_load_def case_prod_beta
        extract_lookup_tables_def Let_def)
  obtain r where r: "data_trade_records (optimize_species_file [example_trade_record]) = [r]"
    using l by (cases "data_trade_records (optimize_species_file [example_trade_record])") auto
  with ids_example have i: "nr_ids r ''taxonomic_id'' = Some 0" "nr_ids r ''term_id'' = Some 0"
    "nr_ids r ''unit_id'' = None" "nr_ids r ''importer_id'' = Some 1"
    "nr_ids r ''exporter_id'' = Some 0" "nr_ids r ''origin_id'' = None"
    "nr_ids r ''purpose_id'' = Some 0" "nr_ids r ''source_id'' = Some 0"
    "nr_ids r ''reporter_type_id'' = Some 0"
    by simp_all
  have a: "map (get_str example_trade_record) covered_fields =
     [''II'', ''Mammalia'', ''Carnivora'', ''Ursidae'', ''Ursus'', ''US'', ''CA'', '''',
      ''skins'', ''T'', ''W'', ''E'', '''']"
    by (simp add: covered_fields_def static_fields_def location_fields_def
        categorical_fields_def get_str_def example_trade_record_def)
  have b: "map (get_str (hd (get_denormalized_records (optimize_species_file [example_trade_record]))))
       covered_fields =
     ['''', '''', '''', '''', '''', '''', '''', '''', '''', '''', '''', '''', '''']"
    by (simp add: get_denormalized_records_def r optimize_example denormalize_record_def Let_def
        i with_taxonomic_def looked_up_def covered_fields_def static_fields_def
        location_fields_def categorical_fields_def get_str_def)
  have c: "map (get_str (hd (get_denormalized_records_str
        (optimize_species_file [example_trade_record])))) covered_fields =
     [''II'', ''Mammalia'', ''Carnivora'', ''Ursidae'', ''Ursus'', ''US'', ''CA'', '''',
      ''skins'', ''T'', ''W'', ''E'', '''']"
    by (simp add: get_denormalized_records_str_def r optimize_example denormalize_record_str_def
        Let_def i str_nat_small with_taxonomic_def looked_up_def update_all_def covered_fields_def
        static_fields_def location_fields_def categorical_fields_def get_str_def)
  from a b c show ?thesis by simp
qed

subsection \<open>The round trip on tables held in memory\<close>

text \<open>
  On the tables as \<open>extract_lookup_tables\<close> returns them, whose ids are integers, the
  lookups of \<open>get_denormalized_records\<close> find every id: each covered field of each record
  comes back with its original value, the empty string included. The loss of the
  previous section is therefore the effect of the keys of the JSON file alone.
\<close>

lemma map_of_zip_index:
  assumes "distinct xs" "v \<in> set xs"
  shows "\<exists>i < length xs. map_of (zip xs [0..<length xs]) v = Some i \<and> xs ! i = v"
proof -
  from assms(2) obtain i where i: "i < length xs" "xs ! i = v"
    by (auto simp: in_set_conv_nth)
  from assms(1) i(1) have "map_of (zip xs [0..<length xs]) (xs ! i) = Some ([0..<length xs] ! i)"
    by (intro map_of_zip_nth) simp_all
  with i show ?thesis by auto
qed

lemma map_of_zip_absent: "v \<notin> set xs \<Longrightarrow> map_of (zip xs [0..<length xs]) v = None"
  using map_of_zip_is_None [of xs "[0..<length xs]" v] by simp

lemma map_of_zip_KInt:
  assumes "i < length xs"
  shows "map_of (zip (map KInt [0..<length xs]) xs) (KInt i) = Some (xs ! i)"
proof -
  have "distinct (map KInt [0..<length xs])" by (simp add: distinct_map inj_on_def)
  with assms have "map_of (zip (map KInt [0..<length xs]) xs) (map KInt [0..<length xs] ! i)
      = Some (xs ! i)"
    by (intro map_of_zip_nth) simp_all
  with assms show ?thesis by simp
qed

lemma index_roundtrip:
  assumes "finite s"
  shows "looked_up (reverse_index (index_of_sorted s))
           (map_option KInt (map_of (index_of_sorted s) v)) = (if v \<in> s then v else '''')"
proof (cases "v \<in> s")
  case True
  let ?xs = "sorted_list_of_set s"
  from assms have l: "length ?xs = card s" by simp
  from assms True have "distinct ?xs" "v \<in> set ?xs" by simp_all
  from map_of_zip_index [OF this] obtain i where i: "i < length ?xs"
    "map_of (zip ?xs [0..<length ?xs]) v = Some i" "?xs ! i = v" by blast
  from map_of_zip_KInt [OF i(1)] i True assms show ?thesis
    by (simp add: index_of_sorted_zip reverse_index_zip looked_up_def l)
next
  case False
  with assms have "map_of (index_of_sorted s) v = None"
    by (simp add: index_of_sorted_zip)
  with False show ?thesis by (simp add: looked_up_def)
qed

lemma map_map_of_zip:
  "distinct ks \<Longrightarrow> length ks = length vs \<Longrightarrow> map (map_of (zip ks vs)) ks = map Some vs"
  by (simp add: list_eq_iff_nth_eq map_of_zip_nth)

lemma distinct_static_fields: "distinct static_fields"
  by (simp add: static_fields_def)

lemma taxonomic_roundtrip:
  assumes "r \<in> set rs"
  shows "\<exists>i. find_taxonomic_id (static_lookup_of rs) (static_combo r) = Some i
     \<and> map_of (static_lookup_of rs) (KInt i) = Some (zip static_fields (static_combo r))"
proof -
  define c where "c = static_combo r"
  define xs where "xs = sorted_list_of_set (static_combinations rs)"
  define P :: "pykey \<times> (string \<times> string) list \<Rightarrow> bool"
    where "P = (\<lambda>(tid, data). map (map_of data) static_fields = map Some c)"
  define tbl where "tbl = zip (map KInt [0..<length xs]) (map (zip static_fields) xs)"
  have tbl: "static_lookup_of rs = tbl"
    by (simp add: static_lookup_of_zip tbl_def xs_def)
  have lc: "length c = length static_fields" by (simp add: static_combo_def c_def)
  have lx: "length y = length static_fields" if "y \<in> set xs" for y
    using that length_static_combo [of y rs] by (simp add: xs_def)
  have P_iff: "P (KInt i, zip static_fields y) \<longleftrightarrow> y = c" if "y \<in> set xs" for i y
    using lx [OF that] lc by (simp add: P_def map_map_of_zip distinct_static_fields)
  have nth: "tbl ! i = (KInt i, zip static_fields (xs ! i))" if "i < length xs" for i
    using that by (simp add: tbl_def)
  have len: "length tbl = length xs" by (simp add: tbl_def)
  from assms have "c \<in> set xs" by (simp add: static_combinations_def c_def xs_def)
  then obtain k where k: "k < length xs" "xs ! k = c" by (metis in_set_conv_nth)
  have "tbl ! k \<in> set tbl" using k(1) len by simp
  moreover have "P (tbl ! k)" using k P_iff [of "xs ! k" k] \<open>c \<in> set xs\<close> by (simp add: nth)
  ultimately have "\<not> (\<nexists>x. x \<in> set tbl \<and> P x)" by blast
  then have "find P tbl \<noteq> None" unfolding find_None_iff .
  then obtain x where x: "find P tbl = Some x" by blast
  from x obtain i where "i < length tbl" and px: "P (tbl ! i)" and xi: "x = tbl ! i"
    unfolding find_Some_iff by blast
  then have i: "i < length xs" "x = tbl ! i" using len by simp_all
  with px have "xs ! i = c" using P_iff [of "xs ! i" i] nth_mem [of i xs] by (simp add: nth)
  with i x have "find_taxonomic_id tbl c = Some i"
    by (simp add: find_taxonomic_id_def nth P_def)
  moreover from map_of_zip_KInt [of i "map (zip static_fields) xs"] i \<open>xs ! i = c\<close>
  have "map_of tbl (KInt i) = Some (zip static_fields c)" by (simp add: tbl_def)
  ultimately show ?thesis unfolding tbl c_def by blast
qed

lemma in_all_locations:
  "v \<in> all_locations rs \<longleftrightarrow> v \<noteq> '''' \<and> (\<exists>r \<in> set rs. \<exists>f \<in> set location_fields. v = get_str r f)"
  unfolding all_locations_def set_filter set_concat set_map by auto

lemma location_roundtrip:
  assumes "r \<in> set rs" "f \<in> set location_fields"
  shows "looked_up (reverse_index (location_lookup_of rs))
           (map_option KInt (map_of (location_lookup_of rs) (get_str r f))) = get_str r f"
proof -
  have fin: "finite (all_locations rs)" by simp
  have "get_str r f \<in> all_locations rs \<longleftrightarrow> get_str r f \<noteq> ''''"
    using assms in_all_locations [of "get_str r f" rs] by blast
  then show ?thesis
    unfolding location_lookup_of_def index_roundtrip [OF fin] by simp
qed

lemma map_of_categorical_lookup:
  assumes "f \<in> set categorical_fields"
  shows "map_of (categorical_lookup_of rs) f = Some (index_of_sorted (categorical_values rs f))"
proof -
  have "map_of (map (\<lambda>k. (k, g k)) ks) f = Some (g f)" if "f \<in> set ks"
    for ks :: "string list" and g :: "string \<Rightarrow> (string \<times> nat) list"
    using that by (induction ks) auto
  from this [OF assms] show ?thesis unfolding categorical_lookup_of_def .
qed

lemma map_of_categorical_reverse:
  assumes "f \<in> set categorical_fields"
  shows "map_of (map (\<lambda>(field, mapping). (field, reverse_index mapping))
                   (categorical_lookup_of rs)) f
         = Some (reverse_index (index_of_sorted (categorical_values rs f)))"
proof -
  have "map_of (map (\<lambda>(field, mapping). (field, h mapping)) (map (\<lambda>k. (k, g k)) ks)) f
          = Some (h (g f))" if "f \<in> set ks"
    for ks :: "string list" and g :: "string \<Rightarrow> (string \<times> nat) list"
      and h :: "(string \<times> nat) list \<Rightarrow> (pykey \<times> string) list"
    using that by (induction ks) auto
  from this [OF assms] show ?thesis unfolding categorical_lookup_of_def .
qed

lemma categorical_roundtrip:
  assumes "r \<in> set rs" "f \<in> set categorical_fields"
  shows "(case map_of (map (\<lambda>(field, mapping). (field, reverse_index mapping))
                         (categorical_lookup_of rs)) f of
            None \<Rightarrow> ''''
          | Some lookup \<Rightarrow>
              looked_up lookup (map_option KInt (categorical_id (categorical_lookup_of rs) f r)))
         = get_str r f"
proof -
  let ?s = "categorical_values rs f"
  have fin: "finite ?s" by simp
  have "get_str r f \<in> ?s \<longleftrightarrow> get_str r f \<noteq> ''''"
    using assms(1) unfolding categorical_values_def by simp
  then show ?thesis
    unfolding map_of_categorical_reverse [OF assms(2)] categorical_id_def
      map_of_categorical_lookup [OF assms(2)] option.case index_roundtrip [OF fin]
    by simp
qed

lemma update_all_append: "update_all m d = m ++ map_of (rev d)"
  unfolding update_all_def
proof (induction d arbitrary: m)
  case Nil
  show ?case by simp
next
  case (Cons kv d)
  obtain k v where kv: "kv = (k, v)" by (cases kv)
  let ?F = "\<lambda>m (k, v). m(k \<mapsto> v)"
  have a: "m(k \<mapsto> v) ++ map_of (rev d) = m ++ map_of (rev (kv # d))"
    unfolding kv by (simp add: map_add_def fun_eq_iff split: option.splits)
  have "foldl ?F m (kv # d) = foldl ?F (m(k \<mapsto> v)) d"
    unfolding kv foldl_Cons prod.case ..
  also have "\<dots> = m(k \<mapsto> v) ++ map_of (rev d)" by (rule Cons)
  finally show ?case unfolding a .
qed

lemma map_of_rev_zip_map:
  assumes "f \<in> set ks"
  shows "map_of (rev (zip ks (map g ks))) f = Some (g f)"
proof -
  have z: "set (rev (zip ks (map g ks))) = (\<lambda>k. (k, g k)) ` set ks"
    by (simp add: zip_map2 zip_same_conv_map image_image)
  with assms have "f \<in> fst ` set (rev (zip ks (map g ks)))"
    by (simp add: image_image)
  then obtain y where y: "map_of (rev (zip ks (map g ks))) f = Some y"
    using map_of_eq_None_iff [of "rev (zip ks (map g ks))" f] by blast
  from map_of_SomeD [OF y] z have "y = g f" by blast
  with y show ?thesis by simp
qed

lemma static_roundtrip:
  assumes "r \<in> set rs" "f \<in> set static_fields"
  shows "with_taxonomic (static_lookup_of rs)
           (map_option KInt (find_taxonomic_id (static_lookup_of rs) (static_combo r))) m f
         = Some (get_str r f)"
proof -
  from taxonomic_roundtrip [OF assms(1)] obtain i where
    i: "find_taxonomic_id (static_lookup_of rs) (static_combo r) = Some i"
       "map_of (static_lookup_of rs) (KInt i) = Some (zip static_fields (static_combo r))"
    by blast
  have "update_all m (zip static_fields (map (get_str r) static_fields)) f = Some (get_str r f)"
    unfolding update_all_append using map_of_rev_zip_map [OF assms(2), of "get_str r"]
    by simp
  with i show ?thesis by (simp add: with_taxonomic_def static_combo_def)
qed

lemma denormalize_location:
  assumes "f \<in> set location_fields"
  shows "str_fields (denormalize_record key_of tables n) f
           = Some (looked_up (locations tables) (map_option key_of (nr_ids n (f @ ''_id''))))"
proof -
  from assms have "f = ''importer'' \<or> f = ''exporter'' \<or> f = ''origin''"
    by (simp add: location_fields_def)
  then show ?thesis
    by (elim disjE; hypsubst; simp add: denormalize_record_def Let_def)
qed

lemma normalize_taxonomic_id:
  "nr_ids (normalize_record sl ll cl r) ''taxonomic_id'' = find_taxonomic_id sl (static_combo r)"
  by (simp add: normalize_record_def without_none_def)

lemma normalize_location_id:
  assumes "f \<in> set location_fields"
  shows "nr_ids (normalize_record sl ll cl r) (f @ ''_id'') = map_of ll (get_str r f)"
proof -
  from assms have "f = ''importer'' \<or> f = ''exporter'' \<or> f = ''origin''"
    by (simp add: location_fields_def)
  then show ?thesis
    by (elim disjE) (simp_all add: normalize_record_def without_none_def split: option.splits)
qed

lemma normalize_categorical_id:
  assumes "f \<in> set categorical_fields"
  shows "nr_ids (normalize_record sl ll cl r) (f @ ''_id'') = categorical_id cl f r"
proof -
  from assms have "f = ''term'' \<or> f = ''purpose'' \<or> f = ''source'' \<or> f = ''reporter_type''
      \<or> f = ''unit''"
    by (simp add: categorical_fields_def)
  then show ?thesis
    by (elim disjE) (simp_all add: normalize_record_def without_none_def split: option.splits)
qed

lemma denormalize_categorical:
  assumes "f \<in> set categorical_fields"
  shows "str_fields (denormalize_record key_of tables n) f
           = Some (case map_of (categorical_reverse tables) f of
                     None \<Rightarrow> ''''
                   | Some lookup \<Rightarrow>
                       looked_up lookup (map_option key_of (nr_ids n (f @ ''_id''))))"
proof -
  from assms have "f = ''term'' \<or> f = ''purpose'' \<or> f = ''source'' \<or> f = ''reporter_type''
      \<or> f = ''unit''"
    by (simp add: categorical_fields_def)
  then show ?thesis
    by (elim disjE; hypsubst; simp add: denormalize_record_def Let_def)
qed

lemma denormalize_static:
  assumes "f \<in> set static_fields"
  shows "str_fields (denormalize_record key_of tables n) f
           = with_taxonomic (taxonomic tables) (map_option key_of (nr_ids n ''taxonomic_id''))
               [''id'' \<mapsto> (case nr_strs n ''id'' of None \<Rightarrow> '''' | Some v \<Rightarrow> v),
                ''quantity_raw'' \<mapsto> (case nr_strs n ''quantity_raw'' of None \<Rightarrow> '''' | Some v \<Rightarrow> v),
                ''source_file'' \<mapsto> (case nr_strs n ''source_file'' of None \<Rightarrow> '''' | Some v \<Rightarrow> v)]
               f"
proof -
  from assms have "f = ''appendix'' \<or> f = ''class'' \<or> f = ''order'' \<or> f = ''family''
      \<or> f = ''genus''"
    by (simp add: static_fields_def)
  then show ?thesis
    by (elim disjE; hypsubst; simp add: denormalize_record_def Let_def)
qed

lemma covered_field_roundtrip:
  assumes "r \<in> set rs" "f \<in> set covered_fields"
  shows "get_str (denormalize_record KInt (fst (extract_lookup_tables rs))
                    (normalize_record (static_lookup_of rs) (location_lookup_of rs)
                       (categorical_lookup_of rs) r)) f
         = get_str r f"
proof -
  let ?tables = "fst (extract_lookup_tables rs)"
  let ?n = "normalize_record (static_lookup_of rs) (location_lookup_of rs)
              (categorical_lookup_of rs) r"
  have t: "taxonomic ?tables = static_lookup_of rs"
    "locations ?tables = reverse_index (location_lookup_of rs)"
    "categorical_reverse ?tables =
       map (\<lambda>(field, mapping). (field, reverse_index mapping)) (categorical_lookup_of rs)"
    by (simp_all add: extract_lookup_tables_def Let_def)
  from assms(2) consider "f \<in> set static_fields" | "f \<in> set location_fields"
    | "f \<in> set categorical_fields"
    unfolding covered_fields_def by auto
  then have "str_fields (denormalize_record KInt ?tables ?n) f = Some (get_str r f)"
  proof cases
    case 1
    show ?thesis
      unfolding denormalize_static [OF 1] t normalize_taxonomic_id
      by (rule static_roundtrip [OF assms(1) 1])
  next
    case 2
    show ?thesis
      unfolding denormalize_location [OF 2] t normalize_location_id [OF 2]
        location_roundtrip [OF assms(1) 2] ..
  next
    case 3
    show ?thesis
      unfolding denormalize_categorical [OF 3] t normalize_categorical_id [OF 3]
        categorical_roundtrip [OF assms(1) 3] ..
  qed
  then show ?thesis by (simp add: get_str_def)
qed

lemma in_memory_round_trip:
  "map (\<lambda>r. map (get_str r) covered_fields)
     (get_denormalized_records
        \<lparr>data_lookup_tables = fst (extract_lookup_tables rs),
         data_trade_records = snd (extract_lookup_tables rs)\<rparr>)
   = map (\<lambda>r. map (get_str r) covered_fields) rs"
proof -
  have s: "snd (extract_lookup_tables rs) =
      map (normalize_record (static_lookup_of rs) (location_lookup_of rs)
             (categorical_lookup_of rs)) rs"
    by (simp add: extract_lookup_tables_def Let_def)
  show ?thesis
    unfolding get_denormalized_records_def s
    by (simp add: covered_field_roundtrip)
qed

end
